theory Spec2Isabelle
  imports Complex_Main
begin

section \<open>JavaScript values read from JSON\<close>

text \<open>
  Both handlers are TypeScript route handlers (\<^verbatim>\<open>export async function GET\<close>).
  The callback handler reads the bodies of its four outbound calls with
  \<^verbatim>\<open>response.json()\<close>, so the values it tests are the values \<^verbatim>\<open>JSON.parse\<close> builds.
  A number is a double: a finite one is a rational, and a literal out of range
  parses to an infinity (NaN and functions cannot come out of JSON).
\<close>

datatype number = Finite rat | Infinity bool

datatype json =
    JNull
  | JBool bool
  | JNum number
  | JStr string
  | JArr "json list"
  | JObj "(string \<times> json) list"

text \<open>A JavaScript value of the handlers: \<open>None\<close> is \<^verbatim>\<open>undefined\<close>.\<close>

type_synonym jsval = "json option"

text \<open>What the handlers can throw, and what an awaited promise can reject with.\<close>

datatype exn =
    Error string
  | TypeError
  | SyntaxError
  | NetworkError

text \<open>
  Truthiness, the test behind \<^verbatim>\<open>!x\<close> and \<^verbatim>\<open>||\<close>: \<^verbatim>\<open>undefined\<close>, \<^verbatim>\<open>null\<close>,
  \<^verbatim>\<open>false\<close>, zero and the empty string are falsy, every array and object is truthy.
\<close>

fun truthy :: "jsval \<Rightarrow> bool" where
  "truthy None = False"
| "truthy (Some JNull) = False"
| "truthy (Some (JBool b)) = b"
| "truthy (Some (JNum (Finite q))) = (q \<noteq> 0)"
| "truthy (Some (JNum (Infinity s))) = True"
| "truthy (Some (JStr s)) = (s \<noteq> [])"
| "truthy (Some (JArr xs)) = True"
| "truthy (Some (JObj kvs)) = True"

text \<open>
  Property read \<^verbatim>\<open>v.k\<close> for the keys the handlers use (\<^verbatim>\<open>access_token\<close>, \<^verbatim>\<open>email\<close>,
  \<^verbatim>\<open>primary\<close>, \<^verbatim>\<open>id\<close>, \<^verbatim>\<open>login\<close>; none is a built-in property of a string, array,
  number or boolean): on \<^verbatim>\<open>null\<close> it throws a TypeError, on an object it is the
  property's value or \<^verbatim>\<open>undefined\<close>, on anything else \<^verbatim>\<open>undefined\<close>. An object is
  kept as the list of its properties, read with \<open>map_of\<close>.
\<close>

fun get_prop :: "json \<Rightarrow> string \<Rightarrow> exn + jsval" where
  "get_prop JNull k = Inl TypeError"
| "get_prop (JObj kvs) k = Inr (map_of kvs k)"
| "get_prop (JBool b) k = Inr None"
| "get_prop (JNum n) k = Inr None"
| "get_prop (JStr s) k = Inr None"
| "get_prop (JArr xs) k = Inr None"

text \<open>
  \<^verbatim>\<open>emails.find((e: any) => e.primary)\<close> on an array: the first element whose
  \<^verbatim>\<open>primary\<close> is truthy, \<^verbatim>\<open>undefined\<close> when there is none; the callback throws on a
  \<^verbatim>\<open>null\<close> element it reaches.
\<close>

fun array_find_primary :: "json list \<Rightarrow> exn + jsval" where
  "array_find_primary [] = Inr None"
| "array_find_primary (e # es) =
     (case get_prop e ''primary'' of
        Inl x \<Rightarrow> Inl x
      | Inr p \<Rightarrow> if truthy p then Inr (Some e) else array_find_primary es)"

text \<open>
  \<^verbatim>\<open>emails.find(...)\<close> on whatever the body parsed to: only an array has a callable
  \<^verbatim>\<open>find\<close>; on \<^verbatim>\<open>null\<close> the property read throws, on any other value \<^verbatim>\<open>find\<close> is not a
  function. Both are TypeErrors.
\<close>

fun emails_find :: "json \<Rightarrow> exn + jsval" where
  "emails_find (JArr es) = array_find_primary es"
| "emails_find JNull = Inl TypeError"
| "emails_find (JBool b) = Inl TypeError"
| "emails_find (JNum n) = Inl TypeError"
| "emails_find (JStr s) = Inl TypeError"
| "emails_find (JObj kvs) = Inl TypeError"

text \<open>
  An entry of the email list is flagged primary when the callback of \<^verbatim>\<open>find\<close>,
  \<^verbatim>\<open>(e: any) => e.primary\<close>, returns a truthy value on it.
\<close>

definition flagged_primary :: "json \<Rightarrow> bool" where
  "flagged_primary entry =
     (case get_prop entry ''primary'' of Inl x \<Rightarrow> False | Inr p \<Rightarrow> truthy p)"

text \<open>Optional chaining \<^verbatim>\<open>primaryEmail?.email\<close>.\<close>

fun optional_email :: "jsval \<Rightarrow> exn + jsval" where
  "optional_email None = Inr None"
| "optional_email (Some e) = get_prop e ''email''"

text \<open>
  What \<^verbatim>\<open>JSON.stringify\<close> writes for a value: a number that is not finite is
  written as \<^verbatim>\<open>null\<close>, also inside arrays and objects; everything else is
  written as it is. The text is kept as the value it denotes.
\<close>

primrec stringify_value :: "json \<Rightarrow> json" where
  "stringify_value JNull = JNull"
| "stringify_value (JBool b) = JBool b"
| "stringify_value (JNum n) = (case n of Finite q \<Rightarrow> JNum (Finite q) | Infinity s \<Rightarrow> JNull)"
| "stringify_value (JStr s) = JStr s"
| "stringify_value (JArr xs) = JArr (map stringify_value xs)"
| "stringify_value (JObj kvs) = JObj (map (map_prod id stringify_value) kvs)"

text \<open>
  \<^verbatim>\<open>JSON.stringify\<close> of an object literal: a property whose value is \<^verbatim>\<open>undefined\<close> is
  left out, every other value is written by \<open>stringify_value\<close>. The text is kept as
  the list of the properties it holds.
\<close>

fun JSON_stringify :: "(string \<times> jsval) list \<Rightarrow> (string \<times> json) list" where
  "JSON_stringify [] = []"
| "JSON_stringify ((k, None) # kvs) = JSON_stringify kvs"
| "JSON_stringify ((k, Some v) # kvs) = (k, stringify_value v) # JSON_stringify kvs"


section \<open>Requests, responses and the environment\<close>

text \<open>\<^verbatim>\<open>process.env\<close>: a variable is a string or \<^verbatim>\<open>undefined\<close>.\<close>

record env =
  GITHUB_CLIENT_ID :: "string option"
  GITHUB_CLIENT_SECRET :: "string option"
  NEXT_PUBLIC_API_URL :: "string option"
  NODE_ENV :: "string option"

text \<open>
  The incoming \<^verbatim>\<open>NextRequest\<close>: \<^verbatim>\<open>request.url\<close> is \<open>origin @ pathname @ ?search\<close>,
  \<^verbatim>\<open>request.nextUrl\<close> is that URL parsed, headers are looked up by lower-case name.
\<close>

record next_request =
  origin :: string
  pathname :: string
  searchParams :: "(string \<times> string) list"
  req_headers :: "(string \<times> string) list"

text \<open>\<^verbatim>\<open>searchParams.get(k)\<close> and \<^verbatim>\<open>headers.get(k)\<close>: the first value, or \<^verbatim>\<open>null\<close>.\<close>

definition searchParams_get :: "next_request \<Rightarrow> string \<Rightarrow> string option" where
  "searchParams_get request k = map_of (searchParams request) k"

definition headers_get :: "next_request \<Rightarrow> string \<Rightarrow> string option" where
  "headers_get request k = map_of (req_headers request) k"

text \<open>
  A redirect target: a URL given as text, or a \<^verbatim>\<open>URL\<close> object with the query
  parameters set on it, in the order of the \<^verbatim>\<open>searchParams.set\<close> calls.
\<close>

datatype href = Href string | WithParams string "(string \<times> string) list"

text \<open>
  \<^verbatim>\<open>new URL(path, request.url)\<close> for an absolute path: the origin of the base,
  then the path (the base's own path and query are dropped).
\<close>

definition new_URL :: "string \<Rightarrow> next_request \<Rightarrow> href" where
  "new_URL path request = Href (origin request @ path)"

text \<open>
  An outbound \<^verbatim>\<open>fetch\<close>. A header value is a literal or the template
  \<^verbatim>\<open>`token ${v}`\<close>, kept with the value it interpolates. The body is absent, a
  \<^verbatim>\<open>URLSearchParams\<close> form, or the text of \<^verbatim>\<open>JSON.stringify\<close>.
\<close>

datatype header_value = Lit string | Token jsval

datatype body = NoBody | FormBody "(string \<times> string) list" | JsonBody "(string \<times> json) list"

record http_request =
  url :: string
  http_method :: string
  headers :: "(string \<times> header_value) list"
  body :: body

text \<open>
  What \<^verbatim>\<open>fetch\<close> resolves to: \<^verbatim>\<open>ok\<close>, and the body as \<^verbatim>\<open>json()\<close> reads it
  (\<open>None\<close>: the body is not JSON and \<^verbatim>\<open>json()\<close> rejects).
\<close>

record http_response =
  ok :: bool
  json_body :: "json option"

text \<open>The network: what each \<^verbatim>\<open>fetch\<close> resolves to or rejects with.\<close>

type_synonym fetch = "http_request \<Rightarrow> exn + http_response"

text \<open>The options of \<^verbatim>\<open>response.cookies.set(name, value, options)\<close>.\<close>

record cookie =
  cookie_name :: string
  cookie_value :: jsval
  httpOnly :: bool
  secure :: bool
  sameSite :: string
  cookie_path :: string
  maxAge :: nat

text \<open>
  A \<^verbatim>\<open>NextResponse\<close>: \<^verbatim>\<open>NextResponse.redirect(url)\<close> is a 307 with a
  \<^verbatim>\<open>Location\<close>, \<^verbatim>\<open>NextResponse.json(body, {status})\<close> carries a JSON body.
\<close>

record next_response =
  status :: nat
  location :: "href option"
  response_json :: "(string \<times> json) list option"
  cookies :: "cookie list"

definition NextResponse_redirect :: "href \<Rightarrow> next_response" where
  "NextResponse_redirect u =
     \<lparr>status = 307, location = Some u, response_json = None, cookies = []\<rparr>"

definition NextResponse_json :: "(string \<times> json) list \<Rightarrow> nat \<Rightarrow> next_response" where
  "NextResponse_json b s =
     \<lparr>status = s, location = None, response_json = Some b, cookies = []\<rparr>"

definition cookies_set :: "next_response \<Rightarrow> cookie \<Rightarrow> next_response" where
  "cookies_set response c =
     response\<lparr>cookies := filter (\<lambda>d. cookie_name d \<noteq> cookie_name c) (cookies response) @ [c]\<rparr>"


section \<open>Awaiting and throwing\<close>

text \<open>
  A piece of the \<^verbatim>\<open>try\<close> block: the outbound calls it made, in order, and either
  what it threw or its value.
\<close>

type_synonym 'a comp = "http_request list \<times> (exn + 'a)"

definition return :: "'a \<Rightarrow> 'a comp" where
  "return x = ([], Inr x)"

definition throw :: "exn \<Rightarrow> 'a comp" where
  "throw e = ([], Inl e)"

definition lift :: "exn + 'a \<Rightarrow> 'a comp" where
  "lift r = ([], r)"

fun and_then :: "'a comp \<Rightarrow> ('a \<Rightarrow> 'b comp) \<Rightarrow> 'b comp" where
  "and_then (l, Inl e) f = (l, Inl e)"
| "and_then (l, Inr a) f = (case f a of (l', r) \<Rightarrow> (l @ l', r))"

definition await_fetch :: "fetch \<Rightarrow> http_request \<Rightarrow> http_response comp" where
  "await_fetch fetch rq = ([rq], fetch rq)"

text \<open>\<^verbatim>\<open>await response.json()\<close>.\<close>

definition await_json :: "http_response \<Rightarrow> json comp" where
  "await_json r = (case json_body r of None \<Rightarrow> throw SyntaxError | Some d \<Rightarrow> return d)"


section \<open>The callback handler\<close>

text \<open>
  \<^verbatim>\<open>new URLSearchParams({...})\<close> turns each value into a string: an unset
  environment variable becomes the text \<^verbatim>\<open>undefined\<close>.
\<close>

definition form_string :: "string option \<Rightarrow> string" where
  "form_string v = (case v of None \<Rightarrow> ''undefined'' | Some s \<Rightarrow> s)"

definition token_request :: "env \<Rightarrow> next_request \<Rightarrow> string \<Rightarrow> http_request" where
  "token_request e request code =
     \<lparr>url = ''https://github.com/login/oauth/access_token'',
      http_method = ''POST'',
      headers = [(''Accept'', Lit ''application/json''),
                 (''Content-Type'', Lit ''application/x-www-form-urlencoded'')],
      body = FormBody
        [(''client_id'', form_string (GITHUB_CLIENT_ID e)),
         (''client_secret'', form_string (GITHUB_CLIENT_SECRET e)),
         (''code'', code),
         (''redirect_uri'', origin request @ ''/api/github/callback'')]\<rparr>"

definition user_request :: "jsval \<Rightarrow> http_request" where
  "user_request access_token =
     \<lparr>url = ''https://api.github.com/user'',
      http_method = ''GET'',
      headers = [(''Authorization'', Token access_token)],
      body = NoBody\<rparr>"

definition emails_request :: "jsval \<Rightarrow> http_request" where
  "emails_request access_token =
     \<lparr>url = ''https://api.github.com/user/emails'',
      http_method = ''GET'',
      headers = [(''Authorization'', Token access_token)],
      body = NoBody\<rparr>"

text \<open>\<^verbatim>\<open>process.env.NEXT_PUBLIC_API_URL || 'http://localhost:8000'\<close>.\<close>

definition backendUrl :: "env \<Rightarrow> string" where
  "backendUrl e =
     (case NEXT_PUBLIC_API_URL e of
        None \<Rightarrow> ''http://localhost:8000''
      | Some s \<Rightarrow> if s = [] then ''http://localhost:8000'' else s)"

definition backend_request :: "env \<Rightarrow> jsval \<Rightarrow> jsval \<Rightarrow> jsval \<Rightarrow> jsval \<Rightarrow> http_request" where
  "backend_request e access_token email github_id username =
     \<lparr>url = backendUrl e @ ''/api/auth/github-oauth'',
      http_method = ''POST'',
      headers = [(''Content-Type'', Lit ''application/json'')],
      body = JsonBody (JSON_stringify
        [(''access_token'', access_token),
         (''email'', email),
         (''github_id'', github_id),
         (''username'', username)])\<rparr>"

text \<open>
  Lines 16-34: the token exchange. The body is parsed before the status is
  looked at; \<^verbatim>\<open>!tokenResponse.ok || !tokenData.access_token\<close> reads the property
  only when the status is a success.
\<close>

definition exchange_token :: "env \<Rightarrow> fetch \<Rightarrow> next_request \<Rightarrow> string \<Rightarrow> jsval comp" where
  "exchange_token e fetch request code =
     and_then (await_fetch fetch (token_request e request code)) (\<lambda>tokenResponse.
     and_then (await_json tokenResponse) (\<lambda>tokenData.
       if \<not> ok tokenResponse then throw (Error ''Failed to get access token'')
       else and_then (lift (get_prop tokenData ''access_token'')) (\<lambda>access_token.
         if \<not> truthy access_token then throw (Error ''Failed to get access token'')
         else return access_token)))"

text \<open>Lines 37-47: the profile.\<close>

definition get_user :: "fetch \<Rightarrow> jsval \<Rightarrow> json comp" where
  "get_user fetch access_token =
     and_then (await_fetch fetch (user_request access_token)) (\<lambda>userResponse.
     and_then (await_json userResponse) (\<lambda>userData.
       if \<not> ok userResponse then throw (Error ''Failed to get user data'')
       else return userData))"

text \<open>
  Lines 52-62, the body of \<^verbatim>\<open>if (!email)\<close>: the email list is read only when the
  status is a success, and \<^verbatim>\<open>email\<close> is assigned inside that branch; otherwise it
  keeps the falsy value it had.
\<close>

definition lookup_email :: "fetch \<Rightarrow> jsval \<Rightarrow> jsval \<Rightarrow> jsval comp" where
  "lookup_email fetch access_token email =
     and_then (await_fetch fetch (emails_request access_token)) (\<lambda>emailsResponse.
       if ok emailsResponse then
         and_then (await_json emailsResponse) (\<lambda>emails.
         and_then (lift (emails_find emails)) (\<lambda>primaryEmail.
           lift (optional_email primaryEmail)))
       else return email)"

text \<open>Lines 50-63: \<^verbatim>\<open>let email = userData.email\<close>, then the lookup when it is falsy.\<close>

definition resolve_email :: "fetch \<Rightarrow> jsval \<Rightarrow> json \<Rightarrow> jsval comp" where
  "resolve_email fetch access_token userData =
     and_then (lift (get_prop userData ''email'')) (\<lambda>email.
       if \<not> truthy email then lookup_email fetch access_token email
       else return email)"

text \<open>Lines 50-67: the resolution, then \<^verbatim>\<open>if (!email) throw\<close>.\<close>

definition get_email :: "fetch \<Rightarrow> jsval \<Rightarrow> json \<Rightarrow> jsval comp" where
  "get_email fetch access_token userData =
     and_then (resolve_email fetch access_token userData) (\<lambda>email.
       if \<not> truthy email then throw (Error ''Email is required'')
       else return email)"

text \<open>Lines 70-88: the backend handoff, and the parse of its answer.\<close>

definition backend_auth :: "env \<Rightarrow> fetch \<Rightarrow> jsval \<Rightarrow> jsval \<Rightarrow> json \<Rightarrow> json comp" where
  "backend_auth e fetch access_token email userData =
     and_then (lift (get_prop userData ''id'')) (\<lambda>github_id.
     and_then (lift (get_prop userData ''login'')) (\<lambda>username.
     and_then (await_fetch fetch (backend_request e access_token email github_id username))
       (\<lambda>authResponse.
       if \<not> ok authResponse then throw (Error ''Backend authentication failed'')
       else await_json authResponse)))"

text \<open>Lines 91-101: the redirect to the dashboard with the session cookie.\<close>

definition set_session :: "env \<Rightarrow> next_request \<Rightarrow> json \<Rightarrow> next_response comp" where
  "set_session e request authData =
     (let response = NextResponse_redirect (new_URL ''/moderator'' request) in
      and_then (lift (get_prop authData ''access_token'')) (\<lambda>token.
        return (cookies_set response
          \<lparr>cookie_name = ''auth_token'',
           cookie_value = token,
           httpOnly = True,
           secure = (NODE_ENV e = Some ''production''),
           sameSite = ''lax'',
           cookie_path = ''/'',
           maxAge = 60 * 60 * 24 * 7\<rparr>)))"

text \<open>The \<^verbatim>\<open>try\<close> block, lines 14-101.\<close>

definition GET_try :: "env \<Rightarrow> fetch \<Rightarrow> next_request \<Rightarrow> string \<Rightarrow> next_response comp" where
  "GET_try e fetch request code =
     and_then (exchange_token e fetch request code) (\<lambda>access_token.
     and_then (get_user fetch access_token) (\<lambda>userData.
     and_then (get_email fetch access_token userData) (\<lambda>email.
     and_then (backend_auth e fetch access_token email userData) (\<lambda>authData.
       set_session e request authData))))"

text \<open>
  What a call of the handler amounts to: the outbound calls made, what
  \<^verbatim>\<open>console.error\<close> logged, and the response.
\<close>

record outcome =
  calls :: "http_request list"
  logged :: "exn list"
  response :: next_response

definition login_failed :: "next_request \<Rightarrow> next_response" where
  "login_failed request =
     NextResponse_redirect (new_URL ''/login?error=github_oauth_failed'' request)"

text \<open>
  The handler, lines 3-109. \<^verbatim>\<open>!code\<close> holds for a missing and for an empty
  \<^verbatim>\<open>code\<close>; \<^verbatim>\<open>state\<close> is read and not used.
\<close>

definition GET :: "env \<Rightarrow> fetch \<Rightarrow> next_request \<Rightarrow> outcome" where
  "GET e fetch request =
     (let code = searchParams_get request ''code'';
          state = searchParams_get request ''state''
      in case code of
        None \<Rightarrow> \<lparr>calls = [], logged = [], response = login_failed request\<rparr>
      | Some c \<Rightarrow>
          if c = [] then \<lparr>calls = [], logged = [], response = login_failed request\<rparr>
          else (case GET_try e fetch request c of
                  (l, Inr r) \<Rightarrow> \<lparr>calls = l, logged = [], response = r\<rparr>
                | (l, Inl error) \<Rightarrow>
                    \<lparr>calls = l, logged = [error], response = login_failed request\<rparr>))"


section \<open>The authorize handler\<close>

text \<open>
  \<^verbatim>\<open>request.headers.get('origin') || request.headers.get('referer') ||
  'http://localhost:3000'\<close>: an empty header is falsy.
\<close>

definition authorize_origin :: "next_request \<Rightarrow> string" where
  "authorize_origin request =
     (case headers_get request ''origin'' of
        Some a \<Rightarrow> if a \<noteq> [] then a else
          (case headers_get request ''referer'' of
             Some b \<Rightarrow> if b \<noteq> [] then b else ''http://localhost:3000''
           | None \<Rightarrow> ''http://localhost:3000'')
      | None \<Rightarrow>
          (case headers_get request ''referer'' of
             Some b \<Rightarrow> if b \<noteq> [] then b else ''http://localhost:3000''
           | None \<Rightarrow> ''http://localhost:3000''))"

text \<open>
  The handler of \<^verbatim>\<open>part_000\<close>. \<open>rnd\<close> is the text
  \<^verbatim>\<open>Math.random().toString(36).substring(7)\<close>; \<^verbatim>\<open>!clientId\<close> holds for an unset and
  for an empty variable.
\<close>

definition GET_authorize :: "env \<Rightarrow> string \<Rightarrow> next_request \<Rightarrow> next_response" where
  "GET_authorize e rnd request =
     (let clientId = GITHUB_CLIENT_ID e in
      case clientId of
        None \<Rightarrow>
          NextResponse_json [(''error'', JStr ''GITHUB_CLIENT_ID is not configured'')] 500
      | Some c \<Rightarrow>
          if c = [] then
            NextResponse_json [(''error'', JStr ''GITHUB_CLIENT_ID is not configured'')] 500
          else
            (let callbackUrl = authorize_origin request @ ''/api/github/callback'' in
             NextResponse_redirect
               (WithParams ''https://github.com/login/oauth/authorize''
                  [(''client_id'', c),
                   (''redirect_uri'', callbackUrl),
                   (''scope'', ''user:email''),
                   (''state'', rnd)])))"


section \<open>Sample inputs\<close>

text \<open>
  A configuration, a callback request and a network that answers each of the
  four endpoints with a given result, for running the handlers on.
\<close>

definition sample_env :: env where
  "sample_env =
     \<lparr>GITHUB_CLIENT_ID = Some ''Iv1.abc'', GITHUB_CLIENT_SECRET = Some ''s3cret'',
      NEXT_PUBLIC_API_URL = None, NODE_ENV = Some ''production''\<rparr>"

definition sample_request :: "(string \<times> string) list \<Rightarrow> next_request" where
  "sample_request ps =
     \<lparr>origin = ''https://b2b.test'', pathname = ''/api/github/callback'',
      searchParams = ps, req_headers = []\<rparr>"

definition sample_fetch ::
  "(exn + http_response) \<Rightarrow> (exn + http_response) \<Rightarrow> (exn + http_response) \<Rightarrow>
   (exn + http_response) \<Rightarrow> fetch" where
  "sample_fetch token user emails backend rq =
     (if url rq = ''https://github.com/login/oauth/access_token'' then token
      else if url rq = ''https://api.github.com/user'' then user
      else if url rq = ''https://api.github.com/user/emails'' then emails
      else backend)"

definition respond :: "bool \<Rightarrow> json \<Rightarrow> exn + http_response" where
  "respond b d = Inr \<lparr>ok = b, json_body = Some d\<rparr>"


text \<open>Answers of the four endpoints.\<close>

definition token_granted :: "exn + http_response" where
  "token_granted = respond True (JObj [(''access_token'', JStr ''gho_16C7'')])"

definition public_profile :: "exn + http_response" where
  "public_profile = respond True
     (JObj [(''id'', JNum (Finite 583231)), (''login'', JStr ''octocat''),
            (''email'', JStr ''octocat@github.test'')])"

definition private_profile :: "exn + http_response" where
  "private_profile = respond True
     (JObj [(''id'', JNum (Finite 583231)), (''login'', JStr ''octocat''),
            (''email'', JNull)])"

definition two_emails :: "exn + http_response" where
  "two_emails = respond True
     (JArr [JObj [(''email'', JStr ''old@github.test''), (''primary'', JBool False)],
            JObj [(''email'', JStr ''octocat@github.test''), (''primary'', JBool True)]])"

definition session_issued :: "exn + http_response" where
  "session_issued = respond True (JObj [(''access_token'', JStr ''T'')])"


definition token_refused :: "exn + http_response" where
  "token_refused = respond True (JObj [(''error'', JStr ''bad_verification_code'')])"

definition rejected :: "exn + http_response" where
  "rejected = respond False (JObj [(''message'', JStr ''Bad credentials'')])"

definition no_primary_emails :: "exn + http_response" where
  "no_primary_emails = respond True
     (JArr [JObj [(''email'', JStr ''old@github.test''), (''primary'', JBool False)]])"

definition not_json :: "exn + http_response" where
  "not_json = Inr \<lparr>ok = True, json_body = None\<rparr>"


definition blank_email_profile :: "exn + http_response" where
  "blank_email_profile = respond True
     (JObj [(''id'', JNum (Finite 583231)), (''login'', JStr ''octocat''),
            (''email'', JStr [])])"

definition blank_primary_emails :: "exn + http_response" where
  "blank_primary_emails = respond True
     (JArr [JObj [(''email'', JStr []), (''primary'', JBool True)]])"


definition huge_id_profile :: "exn + http_response" where
  "huge_id_profile = respond True
     (JObj [(''id'', JNum (Infinity False)), (''login'', JStr ''octocat''),
            (''email'', JStr ''octocat@github.test'')])"

section \<open>Running the pieces\<close>

text \<open>How \<open>and_then\<close> runs, and when each piece of the \<^verbatim>\<open>try\<close> block returns.\<close>

lemma and_then_return: "and_then (return x) f = f x"
  by (cases "f x") (simp add: return_def)

lemma and_then_throw: "and_then (throw x) f = throw x"
  by (simp add: throw_def)

lemma and_then_lift_Inr: "and_then (lift (Inr x)) f = f x"
  by (cases "f x") (simp add: lift_def)

lemma and_then_lift_Inl: "and_then (lift (Inl x)) f = throw x"
  by (simp add: lift_def throw_def)

lemma and_then_fetch_Inl:
  "fetch rq = Inl x \<Longrightarrow> and_then (await_fetch fetch rq) f = ([rq], Inl x)"
  by (simp add: await_fetch_def)

lemma and_then_fetch_Inr:
  "fetch rq = Inr r \<Longrightarrow> and_then (await_fetch fetch rq) f = (rq # fst (f r), snd (f r))"
  by (cases "f r") (simp add: await_fetch_def)

lemma and_then_Inr_iff:
  "and_then m f = (l, Inr r) \<longleftrightarrow> (\<exists>l1 a l2. m = (l1, Inr a) \<and> f a = (l2, Inr r) \<and> l = l1 @ l2)"
proof (cases m)
  case (Pair l1 res)
  show ?thesis
  proof (cases res)
    case (Inl x)
    with Pair show ?thesis by simp
  next
    case (Inr a)
    with Pair show ?thesis by (cases "f a") auto
  qed
qed

lemma set_session_Inr:
  "set_session e request authData = (l, Inr r) \<Longrightarrow>
   l = [] \<and> (\<exists>c. r = cookies_set (NextResponse_redirect (new_URL ''/moderator'' request)) c)"
  by (cases "get_prop authData ''access_token''")
     (auto simp: set_session_def Let_def and_then_lift_Inr and_then_lift_Inl throw_def return_def)

lemma GET_try_Inr:
  assumes "GET_try e fetch request code = (l, Inr r)"
  shows "\<exists>c. r = cookies_set (NextResponse_redirect (new_URL ''/moderator'' request)) c"
  using assms unfolding GET_try_def and_then_Inr_iff
  by (auto dest: set_session_Inr)


lemma exchange_token_Inr_iff:
  "exchange_token e fetch request code = (l, Inr t) \<longleftrightarrow>
     l = [token_request e request code] \<and>
     (\<exists>r d. fetch (token_request e request code) = Inr r \<and> ok r \<and> json_body r = Some d
            \<and> get_prop d ''access_token'' = Inr t \<and> truthy t)"
proof (cases "fetch (token_request e request code)")
  case (Inl x)
  then show ?thesis
    by (auto simp: exchange_token_def and_then_fetch_Inl)
next
  case (Inr r)
  show ?thesis
  proof (cases "json_body r")
    case None
    with Inr show ?thesis
      by (auto simp: exchange_token_def and_then_fetch_Inr await_json_def and_then_throw throw_def)
  next
    case (Some d)
    with Inr show ?thesis
      by (cases "get_prop d ''access_token''")
         (auto simp: exchange_token_def and_then_fetch_Inr await_json_def and_then_return
            and_then_lift_Inr and_then_lift_Inl throw_def return_def)
  qed
qed

lemma get_user_Inr_iff:
  "get_user fetch t = (l, Inr u) \<longleftrightarrow>
     l = [user_request t] \<and>
     (\<exists>r. fetch (user_request t) = Inr r \<and> ok r \<and> json_body r = Some u)"
proof (cases "fetch (user_request t)")
  case (Inl x)
  then show ?thesis
    by (auto simp: get_user_def and_then_fetch_Inl)
next
  case (Inr r)
  then show ?thesis
    by (cases "json_body r")
       (auto simp: get_user_def and_then_fetch_Inr await_json_def and_then_return
          and_then_throw throw_def return_def)
qed

lemma get_email_Inr_iff:
  "get_email fetch t u = (l, Inr m) \<longleftrightarrow> resolve_email fetch t u = (l, Inr m) \<and> truthy m"
  unfolding get_email_def and_then_Inr_iff
  by (auto simp: throw_def return_def)

lemma get_email_falsy:
  "resolve_email fetch t u = (l, Inr m) \<Longrightarrow> \<not> truthy m \<Longrightarrow>
   get_email fetch t u = (l, Inl (Error ''Email is required''))"
  by (simp add: get_email_def throw_def)

lemma backend_auth_Inr_iff:
  "backend_auth e fetch t m u = (l, Inr a) \<longleftrightarrow>
     (\<exists>i n r. get_prop u ''id'' = Inr i \<and> get_prop u ''login'' = Inr n
        \<and> l = [backend_request e t m i n]
        \<and> fetch (backend_request e t m i n) = Inr r \<and> ok r \<and> json_body r = Some a)"
proof (cases "get_prop u ''id''")
  case (Inl x)
  then show ?thesis
    by (auto simp: backend_auth_def and_then_lift_Inl throw_def)
next
  case i: (Inr i)
  show ?thesis
  proof (cases "get_prop u ''login''")
    case (Inl x)
    with i show ?thesis
      by (auto simp: backend_auth_def and_then_lift_Inl and_then_lift_Inr throw_def)
  next
    case n: (Inr n)
    show ?thesis
    proof (cases "fetch (backend_request e t m i n)")
      case (Inl x)
      with i n show ?thesis
        by (auto simp: backend_auth_def and_then_lift_Inr and_then_fetch_Inl)
    next
      case (Inr r)
      with i n show ?thesis
        by (cases "json_body r")
           (auto simp: backend_auth_def and_then_lift_Inr and_then_fetch_Inr await_json_def
              throw_def return_def)
    qed
  qed
qed

lemma set_session_Inr_iff:
  "set_session e request a = (l, Inr r) \<longleftrightarrow>
     l = [] \<and> (\<exists>s. get_prop a ''access_token'' = Inr s \<and>
       r = \<lparr>status = 307, location = Some (Href (origin request @ ''/moderator'')),
            response_json = None,
            cookies = [\<lparr>cookie_name = ''auth_token'', cookie_value = s, httpOnly = True,
                        secure = (NODE_ENV e = Some ''production''), sameSite = ''lax'',
                        cookie_path = ''/'', maxAge = 604800\<rparr>]\<rparr>)"
  by (cases "get_prop a ''access_token''")
     (auto simp: set_session_def Let_def and_then_lift_Inr and_then_lift_Inl throw_def
        return_def cookies_set_def NextResponse_redirect_def new_URL_def)

lemma GET_try_Inr_iff:
  "GET_try e fetch request code = (l, Inr resp) \<longleftrightarrow>
     (\<exists>t u l3 m a.
        exchange_token e fetch request code = ([token_request e request code], Inr t)
      \<and> get_user fetch t = ([user_request t], Inr u)
      \<and> get_email fetch t u = (l3, Inr m)
      \<and> (\<exists>l4. backend_auth e fetch t m u = (l4, Inr a)
            \<and> l = [token_request e request code, user_request t] @ l3 @ l4)
      \<and> set_session e request a = ([], Inr resp))"
  unfolding GET_try_def and_then_Inr_iff
  apply (rule iffI)
   apply (elim exE conjE)
   apply (frule iffD1 [OF exchange_token_Inr_iff])
   apply (frule iffD1 [OF get_user_Inr_iff])
   apply (frule iffD1 [OF set_session_Inr_iff])
   apply (elim exE conjE)
   apply simp
  apply (elim exE conjE)
  apply simp
  done

lemma GET_with_code:
  "searchParams_get request ''code'' = Some code \<Longrightarrow> code \<noteq> [] \<Longrightarrow>
   GET e fetch request =
     (case GET_try e fetch request code of
        (l, Inr r) \<Rightarrow> \<lparr>calls = l, logged = [], response = r\<rparr>
      | (l, Inl err) \<Rightarrow> \<lparr>calls = l, logged = [err], response = login_failed request\<rparr>)"
  by (simp add: GET_def)

lemma login_failed_simps:
  "status (login_failed request) = 307"
  "location (login_failed request)
     = Some (Href (origin request @ ''/login?error=github_oauth_failed''))"
  "response_json (login_failed request) = None"
  "cookies (login_failed request) = []"
  by (simp_all add: login_failed_def NextResponse_redirect_def new_URL_def)


lemma get_prop_not_null: "entry \<noteq> JNull \<Longrightarrow> \<exists>v. get_prop entry k = Inr v"
  by (cases entry) simp_all

lemma array_find_primary_find:
  "JNull \<notin> set es \<Longrightarrow> array_find_primary es = Inr (find flagged_primary es)"
proof (induction es)
  case Nil
  then show ?case by simp
next
  case (Cons x xs)
  then have "x \<noteq> JNull" by auto
  then obtain p where "get_prop x ''primary'' = Inr p"
    using get_prop_not_null by blast
  with Cons show ?case
    by (simp add: flagged_primary_def)
qed

lemma find_the_only:
  "entry \<in> set es \<Longrightarrow> P entry \<Longrightarrow> \<forall>x\<in>set es. P x \<longrightarrow> x = entry \<Longrightarrow>
   find P es = Some entry"
proof (induction es)
  case Nil
  then show ?case by simp
next
  case (Cons a es)
  show ?case
  proof (cases "P a")
    case True
    with Cons.prems(3) have "a = entry" by simp
    with True show ?thesis by simp
  next
    case False
    with Cons.prems(1,2) have "entry \<in> set es" by auto
    moreover have "\<forall>x\<in>set es. P x \<longrightarrow> x = entry"
      using Cons.prems(3) by simp
    ultimately have "find P es = Some entry"
      using Cons.IH Cons.prems(2) by blast
    with False show ?thesis by simp
  qed
qed

lemma find_none: "\<forall>x\<in>set es. \<not> P x \<Longrightarrow> find P es = None"
  by (induction es) auto

lemma resolve_email_lookup:
  assumes "get_prop userData ''email'' = Inr v" "\<not> truthy v"
    and "fetch (emails_request access_token) = Inr emailsResponse" "ok emailsResponse"
      "json_body emailsResponse = Some emails"
  shows "resolve_email fetch access_token userData =
     ([emails_request access_token],
      case emails_find emails of Inl x \<Rightarrow> Inl x | Inr found \<Rightarrow> optional_email found)"
  using assms
  by (cases "emails_find emails")
     (simp_all add: resolve_email_def lookup_email_def and_then_lift_Inr and_then_lift_Inl
        and_then_fetch_Inr await_json_def and_then_return lift_def throw_def)

lemma GET_stops_at_email:
  assumes code: "searchParams_get request ''code'' = Some code" "code \<noteq> []"
    and token: "fetch (token_request e request code) = Inr tokenResponse" "ok tokenResponse"
      "json_body tokenResponse = Some tokenData"
      "get_prop tokenData ''access_token'' = Inr access_token" "truthy access_token"
    and profile: "fetch (user_request access_token) = Inr userResponse" "ok userResponse"
      "json_body userResponse = Some userData"
    and email: "get_email fetch access_token userData = (l, Inl cause)"
  shows "GET e fetch request =
     \<lparr>calls = [token_request e request code, user_request access_token] @ l,
      logged = [cause], response = login_failed request\<rparr>"
proof -
  have s1: "exchange_token e fetch request code = ([token_request e request code], Inr access_token)"
    using token by (simp add: exchange_token_Inr_iff)
  have s2: "get_user fetch access_token = ([user_request access_token], Inr userData)"
    using profile by (simp add: get_user_Inr_iff)
  have "GET_try e fetch request code =
          ([token_request e request code, user_request access_token] @ l, Inl cause)"
    by (simp add: GET_try_def s1 s2 email)
  then show ?thesis
    using code by (simp add: GET_with_code)
qed

lemma lookup_email_rejected:
  "fetch (emails_request t) = Inl x \<Longrightarrow> lookup_email fetch t v = ([emails_request t], Inl x)"
  by (simp add: lookup_email_def and_then_fetch_Inl)

lemma lookup_email_not_ok:
  "fetch (emails_request t) = Inr r \<Longrightarrow> \<not> ok r \<Longrightarrow>
   lookup_email fetch t v = ([emails_request t], Inr v)"
  by (simp add: lookup_email_def and_then_fetch_Inr return_def)

lemma lookup_email_ok:
  "fetch (emails_request t) = Inr r \<Longrightarrow> ok r \<Longrightarrow>
   lookup_email fetch t v = lookup_email fetch t w"
  by (simp add: lookup_email_def and_then_fetch_Inr)

lemma resolve_email_falsy:
  "get_prop u ''email'' = Inr v \<Longrightarrow> \<not> truthy v \<Longrightarrow>
   resolve_email fetch t u = lookup_email fetch t v"
  by (simp add: resolve_email_def and_then_lift_Inr)

lemma lookup_email_calls: "fst (lookup_email fetch t v) = [emails_request t]"
proof (cases "fetch (emails_request t)")
  case (Inl x)
  then show ?thesis by (simp add: lookup_email_rejected)
next
  case (Inr r)
  show ?thesis
  proof (cases "ok r")
    case False
    with Inr show ?thesis by (simp add: lookup_email_not_ok)
  next
    case True
    show ?thesis
    proof (cases "json_body r")
      case None
      with Inr True show ?thesis
        by (simp add: lookup_email_def and_then_fetch_Inr await_json_def and_then_throw throw_def)
    next
      case (Some d)
      show ?thesis
      proof (cases "emails_find d")
        case (Inl x)
        with Inr True Some show ?thesis
          by (simp add: lookup_email_def and_then_fetch_Inr await_json_def and_then_return
                and_then_lift_Inl throw_def)
      next
        case found: (Inr found)
        with Inr True Some show ?thesis
          by (simp add: lookup_email_def and_then_fetch_Inr await_json_def and_then_return
                and_then_lift_Inr lift_def)
      qed
    qed
  qed
qed

lemma get_email_of_lookup:
  assumes "get_prop u ''email'' = Inr v" "\<not> truthy v" "\<not> truthy w"
  shows "get_email fetch t u =
           and_then (lookup_email fetch t w) (\<lambda>email.
             if \<not> truthy email then throw (Error ''Email is required'') else return email)"
proof (cases "fetch (emails_request t)")
  case (Inl x)
  with assms show ?thesis
    by (simp add: get_email_def resolve_email_falsy lookup_email_rejected)
next
  case (Inr r)
  show ?thesis
  proof (cases "ok r")
    case True
    with Inr have "lookup_email fetch t v = lookup_email fetch t w"
      by (rule lookup_email_ok)
    with assms show ?thesis
      by (simp add: get_email_def resolve_email_falsy)
  next
    case False
    with Inr assms show ?thesis
      by (simp add: get_email_def resolve_email_falsy lookup_email_not_ok throw_def)
  qed
qed

lemma truthy_defined: "truthy v \<Longrightarrow> \<exists>d. v = Some d"
  by (cases v) simp_all

lemma backend_auth_rejected:
  "get_prop u ''id'' = Inr i \<Longrightarrow> get_prop u ''login'' = Inr n \<Longrightarrow>
   fetch (backend_request e t m i n) = Inl x \<Longrightarrow>
   backend_auth e fetch t m u = ([backend_request e t m i n], Inl x)"
  by (simp add: backend_auth_def and_then_lift_Inr and_then_fetch_Inl)

lemma backend_auth_answered:
  "get_prop u ''id'' = Inr i \<Longrightarrow> get_prop u ''login'' = Inr n \<Longrightarrow>
   fetch (backend_request e t m i n) = Inr r \<Longrightarrow>
   backend_auth e fetch t m u =
     ([backend_request e t m i n],
      if \<not> ok r then Inl (Error ''Backend authentication failed'')
      else case json_body r of None \<Rightarrow> Inl SyntaxError | Some a \<Rightarrow> Inr a)"
  by (cases "json_body r")
     (simp_all add: backend_auth_def and_then_lift_Inr and_then_fetch_Inr await_json_def
        throw_def return_def)

lemma backend_auth_calls:
  "get_prop u ''id'' = Inr i \<Longrightarrow> get_prop u ''login'' = Inr n \<Longrightarrow>
   fst (backend_auth e fetch t m u) = [backend_request e t m i n]"
  by (cases "fetch (backend_request e t m i n)")
     (simp_all add: backend_auth_rejected backend_auth_answered)

lemma set_session_calls: "fst (set_session e request a) = []"
  by (cases "get_prop a ''access_token''")
     (simp_all add: set_session_def Let_def and_then_lift_Inr and_then_lift_Inl throw_def
        return_def)

lemma GET_try_after_email:
  assumes token: "fetch (token_request e request code) = Inr tokenResponse" "ok tokenResponse"
      "json_body tokenResponse = Some tokenData"
      "get_prop tokenData ''access_token'' = Inr access_token" "truthy access_token"
    and profile: "fetch (user_request access_token) = Inr userResponse" "ok userResponse"
      "json_body userResponse = Some userData"
    and email: "resolve_email fetch access_token userData = (l, Inr email)" "truthy email"
  shows "GET_try e fetch request code =
     (case backend_auth e fetch access_token email userData of
        (l4, Inl x) \<Rightarrow> ([token_request e request code, user_request access_token] @ l @ l4, Inl x)
      | (l4, Inr authData) \<Rightarrow>
          ([token_request e request code, user_request access_token] @ l @ l4,
           snd (set_session e request authData)))"
proof -
  have s1: "exchange_token e fetch request code = ([token_request e request code], Inr access_token)"
    using token by (simp add: exchange_token_Inr_iff)
  have s2: "get_user fetch access_token = ([user_request access_token], Inr userData)"
    using profile by (simp add: get_user_Inr_iff)
  have s3: "get_email fetch access_token userData = (l, Inr email)"
    using email by (simp add: get_email_Inr_iff)
  obtain l4 res where b: "backend_auth e fetch access_token email userData = (l4, res)"
    by (cases "backend_auth e fetch access_token email userData")
  show ?thesis
  proof (cases res)
    case (Inl x)
    with b show ?thesis
      by (simp add: GET_try_def s1 s2 s3)
  next
    case (Inr authData)
    obtain l5 out where s: "set_session e request authData = (l5, out)"
      by (cases "set_session e request authData")
    with set_session_calls [of e request authData] have "l5 = []" by simp
    with b Inr s show ?thesis
      by (simp add: GET_try_def s1 s2 s3)
  qed
qed

lemma map_of_without_state:
  "k \<noteq> ''state'' \<Longrightarrow> map_of (filter (\<lambda>p. fst p \<noteq> ''state'') ps) k = map_of ps k"
  by (induction ps) auto

text \<open>Unfolding the handlers and the sample inputs, and one full run.\<close>

lemmas sample_defs =
  sample_env_def sample_request_def sample_fetch_def respond_def token_granted_def
  public_profile_def private_profile_def two_emails_def session_issued_def
  token_refused_def rejected_def no_primary_emails_def not_json_def
  blank_email_profile_def blank_primary_emails_def huge_id_profile_def

lemmas handler_defs =
  GET_def GET_try_def exchange_token_def get_user_def lookup_email_def resolve_email_def
  get_email_def backend_auth_def set_session_def login_failed_def
  token_request_def user_request_def emails_request_def backend_request_def backendUrl_def
  form_string_def searchParams_get_def new_URL_def NextResponse_redirect_def cookies_set_def
  await_fetch_def await_json_def return_def throw_def lift_def

lemma sample_run:
  "GET sample_env (sample_fetch token_granted private_profile two_emails session_issued)
     (sample_request [(''code'', ''c0de''), (''state'', ''x1'')])
   = \<lparr>calls = [token_request sample_env (sample_request []) ''c0de'',
               user_request (Some (JStr ''gho_16C7'')),
               emails_request (Some (JStr ''gho_16C7'')),
               backend_request sample_env (Some (JStr ''gho_16C7''))
                 (Some (JStr ''octocat@github.test'')) (Some (JNum (Finite 583231)))
                 (Some (JStr ''octocat''))],
      logged = [],
      response = \<lparr>status = 307, location = Some (Href ''https://b2b.test/moderator''),
            response_json = None,
            cookies = [\<lparr>cookie_name = ''auth_token'', cookie_value = Some (JStr ''T''), httpOnly = True,
                        secure = True, sameSite = ''lax'',
                        cookie_path = ''/'', maxAge = 604800\<rparr>]\<rparr>\<rparr>"
  by (simp add: handler_defs sample_defs)


section \<open>Properties of the callback handler\<close>

text \<open>
  C3. For every callback request whose \<^verbatim>\<open>code\<close> query parameter is absent, the
  handler answers with the redirect to \<^verbatim>\<open>/login?error=github_oauth_failed\<close>, sets
  no cookie, and makes no outbound call.
\<close>

theorem missing_code_redirects:
  assumes "searchParams_get request ''code'' = None"
  shows "calls (GET e fetch request) = []
       \<and> response (GET e fetch request) = login_failed request
       \<and> status (response (GET e fetch request)) = 307
       \<and> location (response (GET e fetch request))
           = Some (Href (origin request @ ''/login?error=github_oauth_failed''))
       \<and> cookies (response (GET e fetch request)) = []"
  using assms
  by (simp add: GET_def login_failed_def NextResponse_redirect_def new_URL_def)

theorem missing_code_redirects_witness:
  "searchParams_get (sample_request [(''state'', ''x1'')]) ''code'' = None
   \<and> calls (GET sample_env (\<lambda>rq. Inl NetworkError) (sample_request [(''state'', ''x1'')])) = []
   \<and> location (response (GET sample_env (\<lambda>rq. Inl NetworkError) (sample_request [(''state'', ''x1'')])))
       = Some (Href ''https://b2b.test/login?error=github_oauth_failed'')
   \<and> cookies (response (GET sample_env (\<lambda>rq. Inl NetworkError) (sample_request [(''state'', ''x1'')]))) = []"
proof -
  have h: "searchParams_get (sample_request [(''state'', ''x1'')]) ''code'' = None"
    by (simp add: searchParams_get_def sample_request_def)
  show ?thesis
    using h missing_code_redirects [OF h, of sample_env "\<lambda>rq. Inl NetworkError"]
    by (simp add: sample_request_def login_failed_def NextResponse_redirect_def new_URL_def)
qed

text \<open>
  C5. Whatever the request and whatever the network answers, the callback
  handler answers with a redirect (status 307) whose target is
  \<^verbatim>\<open>/login?error=github_oauth_failed\<close> or \<^verbatim>\<open>/moderator\<close>, on the origin of the request.
\<close>

theorem only_two_redirects:
  "status (response (GET e fetch request)) = 307
   \<and> (location (response (GET e fetch request))
        = Some (Href (origin request @ ''/login?error=github_oauth_failed''))
      \<or> location (response (GET e fetch request))
        = Some (Href (origin request @ ''/moderator'')))"
proof (cases "searchParams_get request ''code''")
  case None
  then show ?thesis
    by (simp add: GET_def login_failed_def NextResponse_redirect_def new_URL_def)
next
  case (Some c)
  show ?thesis
  proof (cases "c = []")
    case True
    with Some show ?thesis
      by (simp add: GET_def login_failed_def NextResponse_redirect_def new_URL_def)
  next
    case False
    obtain l res where t: "GET_try e fetch request c = (l, res)"
      by (cases "GET_try e fetch request c")
    show ?thesis
    proof (cases res)
      case (Inl x)
      with Some False t show ?thesis
        by (simp add: GET_def login_failed_def NextResponse_redirect_def new_URL_def)
    next
      case (Inr r)
      with t obtain ck where
        "r = cookies_set (NextResponse_redirect (new_URL ''/moderator'' request)) ck"
        using GET_try_Inr by blast
      with Some False t Inr show ?thesis
        by (simp add: GET_def cookies_set_def NextResponse_redirect_def new_URL_def)
    qed
  qed
qed

theorem only_two_redirects_witness:
  "status (response (GET sample_env
      (sample_fetch token_granted private_profile two_emails session_issued)
      (sample_request [(''code'', ''c0de''), (''state'', ''x1'')]))) = 307
   \<and> location (response (GET sample_env
      (sample_fetch token_granted private_profile two_emails session_issued)
      (sample_request [(''code'', ''c0de''), (''state'', ''x1'')])))
     = Some (Href ''https://b2b.test/moderator'')"
  using only_two_redirects [of sample_env
      "sample_fetch token_granted private_profile two_emails session_issued"
      "sample_request [(''code'', ''c0de''), (''state'', ''x1'')]"]
  by (simp add: sample_run)

text \<open>
  C1. When the request carries a code and the steps of the flow do not all
  succeed (the token exchange is rejected, answers with a non-success status, a
  body that is not JSON or a body without a truthy \<^verbatim>\<open>access_token\<close>; the profile
  fetch fails; no email is resolved; the backend call is rejected or answers
  with a non-success status; or its answer cannot be read), the handler answers
  with the redirect to \<^verbatim>\<open>/login?error=github_oauth_failed\<close>, sets no cookie, and
  logs the one cause.
\<close>

theorem failure_redirects_without_cookie:
  assumes code: "searchParams_get request ''code'' = Some code" "code \<noteq> []"
    and failure:
      "\<not> (\<exists>tokenResponse tokenData access_token userResponse userData l email
            github_id username authResponse authData session.
           fetch (token_request e request code) = Inr tokenResponse \<and> ok tokenResponse
         \<and> json_body tokenResponse = Some tokenData
         \<and> get_prop tokenData ''access_token'' = Inr access_token \<and> truthy access_token
         \<and> fetch (user_request access_token) = Inr userResponse \<and> ok userResponse
         \<and> json_body userResponse = Some userData
         \<and> resolve_email fetch access_token userData = (l, Inr email) \<and> truthy email
         \<and> get_prop userData ''id'' = Inr github_id
         \<and> get_prop userData ''login'' = Inr username
         \<and> fetch (backend_request e access_token email github_id username) = Inr authResponse
         \<and> ok authResponse \<and> json_body authResponse = Some authData
         \<and> get_prop authData ''access_token'' = Inr session)"
  shows "response (GET e fetch request) = login_failed request
       \<and> status (response (GET e fetch request)) = 307
       \<and> location (response (GET e fetch request))
           = Some (Href (origin request @ ''/login?error=github_oauth_failed''))
       \<and> cookies (response (GET e fetch request)) = []
       \<and> (\<exists>cause. logged (GET e fetch request) = [cause])"
proof -
  obtain l res where t: "GET_try e fetch request code = (l, res)"
    by (cases "GET_try e fetch request code")
  have "\<exists>cause. res = Inl cause"
  proof (cases res)
    case (Inl cause)
    then show ?thesis by simp
  next
    case (Inr resp)
    with t have "GET_try e fetch request code = (l, Inr resp)" by simp
    then obtain tk u l3 m a l4 where
      s1: "exchange_token e fetch request code = ([token_request e request code], Inr tk)" and
      s2: "get_user fetch tk = ([user_request tk], Inr u)" and
      s3: "get_email fetch tk u = (l3, Inr m)" and
      s4: "backend_auth e fetch tk m u = (l4, Inr a)" and
      s5: "set_session e request a = ([], Inr resp)"
      unfolding GET_try_Inr_iff by blast
    from s1 obtain r1 d1 where
      "fetch (token_request e request code) = Inr r1" "ok r1" "json_body r1 = Some d1"
      "get_prop d1 ''access_token'' = Inr tk" "truthy tk"
      unfolding exchange_token_Inr_iff by blast
    moreover from s2 obtain r2 where
      "fetch (user_request tk) = Inr r2" "ok r2" "json_body r2 = Some u"
      unfolding get_user_Inr_iff by blast
    moreover from s3 have "resolve_email fetch tk u = (l3, Inr m)" "truthy m"
      unfolding get_email_Inr_iff by simp_all
    moreover from s4 obtain i n r4 where
      "get_prop u ''id'' = Inr i" "get_prop u ''login'' = Inr n"
      "fetch (backend_request e tk m i n) = Inr r4" "ok r4" "json_body r4 = Some a"
      unfolding backend_auth_Inr_iff by blast
    moreover from s5 obtain s where "get_prop a ''access_token'' = Inr s"
      unfolding set_session_Inr_iff by blast
    ultimately have False
      using failure by blast
    then show ?thesis ..
  qed
  then obtain cause where "res = Inl cause" ..
  with t code show ?thesis
    by (simp add: GET_with_code login_failed_simps)
qed


theorem failure_redirects_without_cookie_witness:
  "response (GET sample_env (sample_fetch rejected public_profile two_emails session_issued)
      (sample_request [(''code'', ''c0de'')])) = login_failed (sample_request [(''code'', ''c0de'')])
   \<and> response (GET sample_env (sample_fetch token_refused public_profile two_emails session_issued)
      (sample_request [(''code'', ''c0de'')])) = login_failed (sample_request [(''code'', ''c0de'')])
   \<and> response (GET sample_env (sample_fetch token_granted rejected two_emails session_issued)
      (sample_request [(''code'', ''c0de'')])) = login_failed (sample_request [(''code'', ''c0de'')])
   \<and> response (GET sample_env
        (sample_fetch token_granted private_profile no_primary_emails session_issued)
      (sample_request [(''code'', ''c0de'')])) = login_failed (sample_request [(''code'', ''c0de'')])
   \<and> response (GET sample_env (sample_fetch token_granted public_profile two_emails rejected)
      (sample_request [(''code'', ''c0de'')])) = login_failed (sample_request [(''code'', ''c0de'')])
   \<and> response (GET sample_env (sample_fetch token_granted public_profile two_emails not_json)
      (sample_request [(''code'', ''c0de'')])) = login_failed (sample_request [(''code'', ''c0de'')])
   \<and> login_failed (sample_request [(''code'', ''c0de'')])
       = \<lparr>status = 307,
          location = Some (Href ''https://b2b.test/login?error=github_oauth_failed''),
          response_json = None, cookies = []\<rparr>"
proof -
  let ?r = "sample_request [(''code'', ''c0de'')]"
  have c: "searchParams_get ?r ''code'' = Some ''c0de''" "''c0de'' \<noteq> []"
    by (simp_all add: searchParams_get_def sample_request_def)
  have 1: "response (GET sample_env
      (sample_fetch rejected public_profile two_emails session_issued) ?r) = login_failed ?r"
    by (rule conjunct1 [OF failure_redirects_without_cookie [OF c]])
       (auto simp: handler_defs sample_defs)
  have 2: "response (GET sample_env
      (sample_fetch token_refused public_profile two_emails session_issued) ?r) = login_failed ?r"
    by (rule conjunct1 [OF failure_redirects_without_cookie [OF c]])
       (auto simp: handler_defs sample_defs)
  have 3: "response (GET sample_env
      (sample_fetch token_granted rejected two_emails session_issued) ?r) = login_failed ?r"
    by (rule conjunct1 [OF failure_redirects_without_cookie [OF c]])
       (auto simp: handler_defs sample_defs)
  have 4: "response (GET sample_env
      (sample_fetch token_granted private_profile no_primary_emails session_issued) ?r)
      = login_failed ?r"
    by (rule conjunct1 [OF failure_redirects_without_cookie [OF c]])
       (auto simp: handler_defs sample_defs)
  have 5: "response (GET sample_env
      (sample_fetch token_granted public_profile two_emails rejected) ?r) = login_failed ?r"
    by (rule conjunct1 [OF failure_redirects_without_cookie [OF c]])
       (auto simp: handler_defs sample_defs)
  have 6: "response (GET sample_env
      (sample_fetch token_granted public_profile two_emails not_json) ?r) = login_failed ?r"
    by (rule conjunct1 [OF failure_redirects_without_cookie [OF c]])
       (auto simp: handler_defs sample_defs)
  have 7: "login_failed ?r = \<lparr>status = 307,
          location = Some (Href ''https://b2b.test/login?error=github_oauth_failed''),
          response_json = None, cookies = []\<rparr>"
    by (simp add: login_failed_def NextResponse_redirect_def new_URL_def sample_request_def)
  from 1 2 3 4 5 6 7 show ?thesis by blast
qed

text \<open>
  C2. On full success (a code, a token exchange that yields an access token, a
  profile, a resolved email, and a backend answer whose \<^verbatim>\<open>access_token\<close> is the
  string \<open>T\<close>), the handler redirects to \<^verbatim>\<open>/moderator\<close> and sets the one cookie
  \<^verbatim>\<open>auth_token=T\<close>: HttpOnly, SameSite lax, path \<^verbatim>\<open>/\<close>, Max-Age 604800, and Secure
  exactly when \<^verbatim>\<open>NODE_ENV\<close> is \<^verbatim>\<open>production\<close>.
\<close>

theorem full_success_sets_cookie:
  assumes code: "searchParams_get request ''code'' = Some code" "code \<noteq> []"
    and token: "fetch (token_request e request code) = Inr tokenResponse" "ok tokenResponse"
      "json_body tokenResponse = Some tokenData"
      "get_prop tokenData ''access_token'' = Inr access_token" "truthy access_token"
    and profile: "fetch (user_request access_token) = Inr userResponse" "ok userResponse"
      "json_body userResponse = Some userData"
    and email: "resolve_email fetch access_token userData = (l, Inr email)" "truthy email"
    and ident: "get_prop userData ''id'' = Inr github_id"
      "get_prop userData ''login'' = Inr username"
    and backend: "fetch (backend_request e access_token email github_id username) = Inr authResponse"
      "ok authResponse" "json_body authResponse = Some authData"
      "get_prop authData ''access_token'' = Inr (Some (JStr T))"
  shows "response (GET e fetch request) =
           \<lparr>status = 307, location = Some (Href (origin request @ ''/moderator'')),
            response_json = None,
            cookies = [\<lparr>cookie_name = ''auth_token'', cookie_value = Some (JStr T),
                        httpOnly = True, secure = (NODE_ENV e = Some ''production''),
                        sameSite = ''lax'', cookie_path = ''/'', maxAge = 604800\<rparr>]\<rparr>
       \<and> logged (GET e fetch request) = []
       \<and> calls (GET e fetch request) =
           [token_request e request code, user_request access_token] @ l @
           [backend_request e access_token email github_id username]"
proof -
  let ?resp = "\<lparr>status = 307, location = Some (Href (origin request @ ''/moderator'')),
            response_json = None,
            cookies = [\<lparr>cookie_name = ''auth_token'', cookie_value = Some (JStr T),
                        httpOnly = True, secure = (NODE_ENV e = Some ''production''),
                        sameSite = ''lax'', cookie_path = ''/'', maxAge = 604800\<rparr>]\<rparr>"
  have s1: "exchange_token e fetch request code = ([token_request e request code], Inr access_token)"
    using token by (simp add: exchange_token_Inr_iff)
  have s2: "get_user fetch access_token = ([user_request access_token], Inr userData)"
    using profile by (simp add: get_user_Inr_iff)
  have s3: "get_email fetch access_token userData = (l, Inr email)"
    using email by (simp add: get_email_Inr_iff)
  have s4: "backend_auth e fetch access_token email userData
              = ([backend_request e access_token email github_id username], Inr authData)"
    using ident backend by (simp add: backend_auth_Inr_iff)
  have s5: "set_session e request authData = ([], Inr ?resp)"
    using backend(4) by (simp add: set_session_Inr_iff)
  have "GET_try e fetch request code =
          ([token_request e request code, user_request access_token] @ l @
           [backend_request e access_token email github_id username], Inr ?resp)"
    unfolding GET_try_Inr_iff using s1 s2 s3 s4 s5 by blast
  then show ?thesis
    using code by (simp add: GET_with_code)
qed

theorem full_success_sets_cookie_witness:
  "response (GET sample_env (sample_fetch token_granted private_profile two_emails session_issued)
     (sample_request [(''code'', ''c0de''), (''state'', ''x1'')]))
   = \<lparr>status = 307, location = Some (Href ''https://b2b.test/moderator''),
      response_json = None,
      cookies = [\<lparr>cookie_name = ''auth_token'', cookie_value = Some (JStr ''T''),
                  httpOnly = True, secure = True, sameSite = ''lax'',
                  cookie_path = ''/'', maxAge = 604800\<rparr>]\<rparr>
   \<and> response (GET (sample_env\<lparr>NODE_ENV := Some ''development''\<rparr>)
       (sample_fetch token_granted public_profile two_emails session_issued)
       (sample_request [(''code'', ''c0de'')]))
   = \<lparr>status = 307, location = Some (Href ''https://b2b.test/moderator''),
      response_json = None,
      cookies = [\<lparr>cookie_name = ''auth_token'', cookie_value = Some (JStr ''T''),
                  httpOnly = True, secure = False, sameSite = ''lax'',
                  cookie_path = ''/'', maxAge = 604800\<rparr>]\<rparr>"
proof -
  let ?f = "sample_fetch token_granted private_profile two_emails session_issued"
  let ?r = "sample_request [(''code'', ''c0de''), (''state'', ''x1'')]"
  let ?t = "Some (JStr ''gho_16C7'')"
  let ?u = "JObj [(''id'', JNum (Finite 583231)), (''login'', JStr ''octocat''), (''email'', JNull)]"
  let ?m = "Some (JStr ''octocat@github.test'')"
  have a: "response (GET sample_env ?f ?r) =
           \<lparr>status = 307, location = Some (Href (origin ?r @ ''/moderator'')),
            response_json = None,
            cookies = [\<lparr>cookie_name = ''auth_token'', cookie_value = Some (JStr ''T''),
                        httpOnly = True, secure = (NODE_ENV sample_env = Some ''production''),
                        sameSite = ''lax'', cookie_path = ''/'', maxAge = 604800\<rparr>]\<rparr>"
    by (rule conjunct1 [OF full_success_sets_cookie [of ?r "''c0de''" ?f sample_env
        "\<lparr>ok = True, json_body = Some (JObj [(''access_token'', JStr ''gho_16C7'')])\<rparr>"
        "JObj [(''access_token'', JStr ''gho_16C7'')]" ?t
        "\<lparr>ok = True, json_body = Some ?u\<rparr>" ?u
        "[emails_request ?t]" ?m "Some (JNum (Finite 583231))" "Some (JStr ''octocat'')"
        "\<lparr>ok = True, json_body = Some (JObj [(''access_token'', JStr ''T'')])\<rparr>"
        "JObj [(''access_token'', JStr ''T'')]" "''T''"]])
       (simp_all add: handler_defs sample_defs)
  let ?e' = "sample_env\<lparr>NODE_ENV := Some ''development''\<rparr>"
  let ?f' = "sample_fetch token_granted public_profile two_emails session_issued"
  let ?r' = "sample_request [(''code'', ''c0de'')]"
  let ?u' = "JObj [(''id'', JNum (Finite 583231)), (''login'', JStr ''octocat''),
                   (''email'', JStr ''octocat@github.test'')]"
  have b: "response (GET ?e' ?f' ?r') =
           \<lparr>status = 307, location = Some (Href (origin ?r' @ ''/moderator'')),
            response_json = None,
            cookies = [\<lparr>cookie_name = ''auth_token'', cookie_value = Some (JStr ''T''),
                        httpOnly = True, secure = (NODE_ENV ?e' = Some ''production''),
                        sameSite = ''lax'', cookie_path = ''/'', maxAge = 604800\<rparr>]\<rparr>"
    by (rule conjunct1 [OF full_success_sets_cookie [of ?r' "''c0de''" ?f' ?e'
        "\<lparr>ok = True, json_body = Some (JObj [(''access_token'', JStr ''gho_16C7'')])\<rparr>"
        "JObj [(''access_token'', JStr ''gho_16C7'')]" ?t
        "\<lparr>ok = True, json_body = Some ?u'\<rparr>" ?u'
        "[]" ?m "Some (JNum (Finite 583231))" "Some (JStr ''octocat'')"
        "\<lparr>ok = True, json_body = Some (JObj [(''access_token'', JStr ''T'')])\<rparr>"
        "JObj [(''access_token'', JStr ''T'')]" "''T''"]])
       (simp_all add: handler_defs sample_defs)
  from a b show ?thesis
    by (simp add: sample_defs)
qed

text \<open>
  C4. Email resolution. When the profile has \<^verbatim>\<open>email: null\<close> and the email list
  comes back as an array without \<^verbatim>\<open>null\<close> entries, the handler fetches the list
  and the resolved email is the \<^verbatim>\<open>email\<close> of the first entry flagged primary; in
  particular, when exactly one entry is flagged primary, it is that entry's
  address. When no entry is flagged primary, the flow fails with
  \<^verbatim>\<open>Email is required\<close> and the handler redirects to the error target.
\<close>

theorem primary_email_selected:
  assumes code: "searchParams_get request ''code'' = Some code" "code \<noteq> []"
    and token: "fetch (token_request e request code) = Inr tokenResponse" "ok tokenResponse"
      "json_body tokenResponse = Some tokenData"
      "get_prop tokenData ''access_token'' = Inr access_token" "truthy access_token"
    and profile: "fetch (user_request access_token) = Inr userResponse" "ok userResponse"
      "json_body userResponse = Some userData"
    and hidden: "get_prop userData ''email'' = Inr (Some JNull)"
    and list: "fetch (emails_request access_token) = Inr emailsResponse" "ok emailsResponse"
      "json_body emailsResponse = Some (JArr emails)" "JNull \<notin> set emails"
  shows "resolve_email fetch access_token userData =
           ([emails_request access_token],
            case find flagged_primary emails of
              None \<Rightarrow> Inr None
            | Some entry \<Rightarrow> get_prop entry ''email'')
       \<and> (\<forall>entry. entry \<in> set emails \<and> flagged_primary entry
             \<and> (\<forall>x\<in>set emails. flagged_primary x \<longrightarrow> x = entry) \<longrightarrow>
            resolve_email fetch access_token userData =
              ([emails_request access_token], get_prop entry ''email''))
       \<and> ((\<forall>x\<in>set emails. \<not> flagged_primary x) \<longrightarrow>
            GET e fetch request =
              \<lparr>calls = [token_request e request code, user_request access_token,
                        emails_request access_token],
               logged = [Error ''Email is required''],
               response = login_failed request\<rparr>)"
proof -
  have r: "resolve_email fetch access_token userData =
           ([emails_request access_token],
            case find flagged_primary emails of
              None \<Rightarrow> Inr None
            | Some entry \<Rightarrow> get_prop entry ''email'')"
    using resolve_email_lookup [of userData "Some JNull" fetch access_token emailsResponse
        "JArr emails"] hidden list
    by (cases "find flagged_primary emails") (simp_all add: array_find_primary_find)
  have one: "resolve_email fetch access_token userData =
              ([emails_request access_token], get_prop entry ''email'')"
    if "entry \<in> set emails" "flagged_primary entry"
       "\<forall>x\<in>set emails. flagged_primary x \<longrightarrow> x = entry" for entry
    using r find_the_only [OF that] by simp
  have none: "GET e fetch request =
              \<lparr>calls = [token_request e request code, user_request access_token,
                        emails_request access_token],
               logged = [Error ''Email is required''],
               response = login_failed request\<rparr>"
    if "\<forall>x\<in>set emails. \<not> flagged_primary x"
  proof -
    have "resolve_email fetch access_token userData = ([emails_request access_token], Inr None)"
      using r find_none [OF that] by simp
    then have "get_email fetch access_token userData
                 = ([emails_request access_token], Inl (Error ''Email is required''))"
      by (simp add: get_email_falsy)
    from GET_stops_at_email [OF code token profile this] show ?thesis by simp
  qed
  show ?thesis
  proof (intro conjI allI impI)
    show "resolve_email fetch access_token userData =
           ([emails_request access_token],
            case find flagged_primary emails of
              None \<Rightarrow> Inr None
            | Some entry \<Rightarrow> get_prop entry ''email'')"
      by (rule r)
  next
    fix entry
    assume "entry \<in> set emails \<and> flagged_primary entry
             \<and> (\<forall>x\<in>set emails. flagged_primary x \<longrightarrow> x = entry)"
    then show "resolve_email fetch access_token userData =
              ([emails_request access_token], get_prop entry ''email'')"
      using one [of entry] by simp
  next
    assume "\<forall>x\<in>set emails. \<not> flagged_primary x"
    then show "GET e fetch request =
              \<lparr>calls = [token_request e request code, user_request access_token,
                        emails_request access_token],
               logged = [Error ''Email is required''],
               response = login_failed request\<rparr>"
      by (rule none)
  qed
qed


theorem primary_email_selected_witness:
  "resolve_email (sample_fetch token_granted private_profile two_emails session_issued)
      (Some (JStr ''gho_16C7''))
      (JObj [(''id'', JNum (Finite 583231)), (''login'', JStr ''octocat''), (''email'', JNull)])
     = ([emails_request (Some (JStr ''gho_16C7''))], Inr (Some (JStr ''octocat@github.test'')))
   \<and> GET sample_env (sample_fetch token_granted private_profile no_primary_emails session_issued)
       (sample_request [(''code'', ''c0de'')])
     = \<lparr>calls = [token_request sample_env (sample_request [(''code'', ''c0de'')]) ''c0de'',
                 user_request (Some (JStr ''gho_16C7'')),
                 emails_request (Some (JStr ''gho_16C7''))],
        logged = [Error ''Email is required''],
        response = login_failed (sample_request [(''code'', ''c0de'')])\<rparr>"
proof -
  let ?r = "sample_request [(''code'', ''c0de'')]"
  let ?t = "Some (JStr ''gho_16C7'')"
  let ?u = "JObj [(''id'', JNum (Finite 583231)), (''login'', JStr ''octocat''), (''email'', JNull)]"
  let ?old = "JObj [(''email'', JStr ''old@github.test''), (''primary'', JBool False)]"
  let ?new = "JObj [(''email'', JStr ''octocat@github.test''), (''primary'', JBool True)]"
  let ?f = "sample_fetch token_granted private_profile two_emails session_issued"
  let ?g = "sample_fetch token_granted private_profile no_primary_emails session_issued"
  have "resolve_email ?f ?t ?u = ([emails_request ?t], get_prop ?new ''email'')"
    by (rule mp [OF spec [OF conjunct1 [OF conjunct2 [OF primary_email_selected
          [of ?r "''c0de''" ?f sample_env
             "\<lparr>ok = True, json_body = Some (JObj [(''access_token'', JStr ''gho_16C7'')])\<rparr>"
             "JObj [(''access_token'', JStr ''gho_16C7'')]" ?t
             "\<lparr>ok = True, json_body = Some ?u\<rparr>" ?u
             "\<lparr>ok = True, json_body = Some (JArr [?old, ?new])\<rparr>" "[?old, ?new]"]]]]])
       (simp_all add: handler_defs sample_defs flagged_primary_def)
  moreover have "GET sample_env ?g ?r
     = \<lparr>calls = [token_request sample_env ?r ''c0de'', user_request ?t, emails_request ?t],
        logged = [Error ''Email is required''], response = login_failed ?r\<rparr>"
    by (rule mp [OF conjunct2 [OF conjunct2 [OF primary_email_selected
          [of ?r "''c0de''" ?g sample_env
             "\<lparr>ok = True, json_body = Some (JObj [(''access_token'', JStr ''gho_16C7'')])\<rparr>"
             "JObj [(''access_token'', JStr ''gho_16C7'')]" ?t
             "\<lparr>ok = True, json_body = Some ?u\<rparr>" ?u
             "\<lparr>ok = True, json_body = Some (JArr [?old])\<rparr>" "[?old]"]]]])
       (simp_all add: handler_defs sample_defs flagged_primary_def)
  ultimately show ?thesis by simp
qed

text \<open>
  C9. The test for a missing public email is falsiness. For a profile whose
  \<^verbatim>\<open>email\<close> is any falsy value (the empty string, \<^verbatim>\<open>undefined\<close>, \<^verbatim>\<open>false\<close>, zero,
  \<^verbatim>\<open>null\<close>), the handler calls the email list, and lines 50-67 end exactly as
  they do for a profile with \<^verbatim>\<open>email: null\<close>; and when the resolved email is
  itself falsy (the empty string, say), the flow fails with
  \<^verbatim>\<open>Email is required\<close> and the handler redirects to the error target.
\<close>

theorem falsy_email_treated_as_null:
  assumes code: "searchParams_get request ''code'' = Some code" "code \<noteq> []"
    and token: "fetch (token_request e request code) = Inr tokenResponse" "ok tokenResponse"
      "json_body tokenResponse = Some tokenData"
      "get_prop tokenData ''access_token'' = Inr access_token" "truthy access_token"
    and profile: "fetch (user_request access_token) = Inr userResponse" "ok userResponse"
      "json_body userResponse = Some userData"
    and falsy: "get_prop userData ''email'' = Inr v" "\<not> truthy v"
  shows "fst (resolve_email fetch access_token userData) = [emails_request access_token]
       \<and> (\<forall>nullProfile. get_prop nullProfile ''email'' = Inr (Some JNull) \<longrightarrow>
            get_email fetch access_token userData = get_email fetch access_token nullProfile)
       \<and> (\<forall>l resolved.
            resolve_email fetch access_token userData = (l, Inr resolved) \<and> \<not> truthy resolved
            \<longrightarrow>
            GET e fetch request =
              \<lparr>calls = [token_request e request code, user_request access_token] @ l,
               logged = [Error ''Email is required''],
               response = login_failed request\<rparr>)"
proof (intro conjI allI impI)
  show "fst (resolve_email fetch access_token userData) = [emails_request access_token]"
    using falsy by (simp add: resolve_email_falsy lookup_email_calls)
next
  fix nullProfile
  assume n: "get_prop nullProfile ''email'' = Inr (Some JNull)"
  have "get_email fetch access_token userData =
          and_then (lookup_email fetch access_token (Some JNull)) (\<lambda>email.
             if \<not> truthy email then throw (Error ''Email is required'') else return email)"
    by (rule get_email_of_lookup [OF falsy]) simp
  moreover have "get_email fetch access_token nullProfile =
          and_then (lookup_email fetch access_token (Some JNull)) (\<lambda>email.
             if \<not> truthy email then throw (Error ''Email is required'') else return email)"
    by (rule get_email_of_lookup [OF n]) simp_all
  ultimately show "get_email fetch access_token userData = get_email fetch access_token nullProfile"
    by simp
next
  fix l resolved
  assume "resolve_email fetch access_token userData = (l, Inr resolved) \<and> \<not> truthy resolved"
  then have "get_email fetch access_token userData = (l, Inl (Error ''Email is required''))"
    by (simp add: get_email_falsy)
  from GET_stops_at_email [OF code token profile this]
  show "GET e fetch request =
              \<lparr>calls = [token_request e request code, user_request access_token] @ l,
               logged = [Error ''Email is required''],
               response = login_failed request\<rparr>" .
qed

theorem falsy_email_treated_as_null_witness:
  "fst (resolve_email (sample_fetch token_granted blank_email_profile two_emails session_issued)
      (Some (JStr ''gho_16C7''))
      (JObj [(''id'', JNum (Finite 583231)), (''login'', JStr ''octocat''), (''email'', JStr [])]))
     = [emails_request (Some (JStr ''gho_16C7''))]
   \<and> get_email (sample_fetch token_granted blank_email_profile two_emails session_issued)
      (Some (JStr ''gho_16C7''))
      (JObj [(''id'', JNum (Finite 583231)), (''login'', JStr ''octocat''), (''email'', JStr [])])
     = get_email (sample_fetch token_granted blank_email_profile two_emails session_issued)
      (Some (JStr ''gho_16C7''))
      (JObj [(''id'', JNum (Finite 583231)), (''login'', JStr ''octocat''), (''email'', JNull)])
   \<and> GET sample_env
       (sample_fetch token_granted blank_email_profile blank_primary_emails session_issued)
       (sample_request [(''code'', ''c0de'')])
     = \<lparr>calls = [token_request sample_env (sample_request [(''code'', ''c0de'')]) ''c0de'',
                 user_request (Some (JStr ''gho_16C7''))]
                @ [emails_request (Some (JStr ''gho_16C7''))],
        logged = [Error ''Email is required''],
        response = login_failed (sample_request [(''code'', ''c0de'')])\<rparr>"
proof -
  let ?r = "sample_request [(''code'', ''c0de'')]"
  let ?t = "Some (JStr ''gho_16C7'')"
  let ?u = "JObj [(''id'', JNum (Finite 583231)), (''login'', JStr ''octocat''), (''email'', JStr [])]"
  let ?n = "JObj [(''id'', JNum (Finite 583231)), (''login'', JStr ''octocat''), (''email'', JNull)]"
  let ?f = "sample_fetch token_granted blank_email_profile two_emails session_issued"
  let ?g = "sample_fetch token_granted blank_email_profile blank_primary_emails session_issued"
  let ?tr = "\<lparr>ok = True, json_body = Some (JObj [(''access_token'', JStr ''gho_16C7'')])\<rparr>"
  let ?td = "JObj [(''access_token'', JStr ''gho_16C7'')]"
  have "fst (resolve_email ?f ?t ?u) = [emails_request ?t]"
    by (rule conjunct1 [OF falsy_email_treated_as_null
          [of ?r "''c0de''" ?f sample_env ?tr ?td ?t "\<lparr>ok = True, json_body = Some ?u\<rparr>" ?u
             "Some (JStr [])"]])
       (simp_all add: handler_defs sample_defs)
  moreover have "get_email ?f ?t ?u = get_email ?f ?t ?n"
    by (rule mp [OF spec [of _ ?n, OF conjunct1 [OF conjunct2 [OF falsy_email_treated_as_null
          [of ?r "''c0de''" ?f sample_env ?tr ?td ?t "\<lparr>ok = True, json_body = Some ?u\<rparr>" ?u
             "Some (JStr [])"]]]]])
       (simp_all add: handler_defs sample_defs)
  moreover have "GET sample_env ?g ?r
     = \<lparr>calls = [token_request sample_env ?r ''c0de'', user_request ?t] @ [emails_request ?t],
        logged = [Error ''Email is required''], response = login_failed ?r\<rparr>"
    by (rule mp [OF spec [of _ "Some (JStr [])", OF spec [of _ "[emails_request ?t]",
          OF conjunct2 [OF conjunct2 [OF falsy_email_treated_as_null
          [of ?r "''c0de''" ?g sample_env ?tr ?td ?t "\<lparr>ok = True, json_body = Some ?u\<rparr>" ?u
             "Some (JStr [])"]]]]]])
       (simp_all add: handler_defs sample_defs)
  ultimately show ?thesis by blast
qed

text \<open>
  C10. A non-success status of the email-list request does not abort the flow
  by itself: the list is not parsed, \<^verbatim>\<open>email\<close> keeps the falsy value the
  profile gave, and the flow fails at the check of line 65 with
  \<^verbatim>\<open>Email is required\<close>, which gives the same error redirect.
\<close>

theorem emails_status_failure_falls_through:
  assumes code: "searchParams_get request ''code'' = Some code" "code \<noteq> []"
    and token: "fetch (token_request e request code) = Inr tokenResponse" "ok tokenResponse"
      "json_body tokenResponse = Some tokenData"
      "get_prop tokenData ''access_token'' = Inr access_token" "truthy access_token"
    and profile: "fetch (user_request access_token) = Inr userResponse" "ok userResponse"
      "json_body userResponse = Some userData"
    and falsy: "get_prop userData ''email'' = Inr v" "\<not> truthy v"
    and refused: "fetch (emails_request access_token) = Inr emailsResponse" "\<not> ok emailsResponse"
  shows "resolve_email fetch access_token userData = ([emails_request access_token], Inr v)
       \<and> get_email fetch access_token userData
           = ([emails_request access_token], Inl (Error ''Email is required''))
       \<and> GET e fetch request =
           \<lparr>calls = [token_request e request code, user_request access_token,
                     emails_request access_token],
            logged = [Error ''Email is required''],
            response = login_failed request\<rparr>"
proof -
  have r: "resolve_email fetch access_token userData = ([emails_request access_token], Inr v)"
    using falsy refused by (simp add: resolve_email_falsy lookup_email_not_ok)
  then have g: "get_email fetch access_token userData
           = ([emails_request access_token], Inl (Error ''Email is required''))"
    using falsy(2) by (simp add: get_email_falsy)
  from GET_stops_at_email [OF code token profile g] r g show ?thesis
    by simp
qed

theorem emails_status_failure_falls_through_witness:
  "resolve_email (sample_fetch token_granted private_profile rejected session_issued)
      (Some (JStr ''gho_16C7''))
      (JObj [(''id'', JNum (Finite 583231)), (''login'', JStr ''octocat''), (''email'', JNull)])
     = ([emails_request (Some (JStr ''gho_16C7''))], Inr (Some JNull))
   \<and> get_email (sample_fetch token_granted private_profile rejected session_issued)
      (Some (JStr ''gho_16C7''))
      (JObj [(''id'', JNum (Finite 583231)), (''login'', JStr ''octocat''), (''email'', JNull)])
     = ([emails_request (Some (JStr ''gho_16C7''))], Inl (Error ''Email is required''))
   \<and> GET sample_env (sample_fetch token_granted private_profile rejected session_issued)
       (sample_request [(''code'', ''c0de'')])
     = \<lparr>calls = [token_request sample_env (sample_request [(''code'', ''c0de'')]) ''c0de'',
                 user_request (Some (JStr ''gho_16C7'')),
                 emails_request (Some (JStr ''gho_16C7''))],
        logged = [Error ''Email is required''],
        response = login_failed (sample_request [(''code'', ''c0de'')])\<rparr>"
  by (rule emails_status_failure_falls_through
        [of _ "''c0de''" _ _
           "\<lparr>ok = True, json_body = Some (JObj [(''access_token'', JStr ''gho_16C7'')])\<rparr>"
           "JObj [(''access_token'', JStr ''gho_16C7'')]" _
           "\<lparr>ok = True,
              json_body = Some (JObj [(''id'', JNum (Finite 583231)),
                (''login'', JStr ''octocat''), (''email'', JNull)])\<rparr>" _ _
           "\<lparr>ok = False, json_body = Some (JObj [(''message'', JStr ''Bad credentials'')])\<rparr>"])
     (simp_all add: handler_defs sample_defs)

text \<open>
  C6. The \<^verbatim>\<open>state\<close> parameter has no influence: two callback requests on the same
  origin whose query parameters agree once every \<^verbatim>\<open>state\<close> entry is left out
  give, on the same network, the same calls, the same log and the same
  response.
\<close>

theorem state_parameter_ignored:
  assumes "origin request' = origin request"
    and "filter (\<lambda>p. fst p \<noteq> ''state'') (searchParams request')
       = filter (\<lambda>p. fst p \<noteq> ''state'') (searchParams request)"
  shows "GET e fetch request' = GET e fetch request"
proof -
  have "map_of (searchParams request') ''code'' = map_of (searchParams request) ''code''"
    using map_of_without_state [of "''code''" "searchParams request'"]
      map_of_without_state [of "''code''" "searchParams request"] assms(2)
    by simp
  then have c: "searchParams_get request' ''code'' = searchParams_get request ''code''"
    by (simp add: searchParams_get_def)
  have t: "GET_try e fetch request' code = GET_try e fetch request code" for code
    using assms(1)
    by (simp add: GET_try_def exchange_token_def token_request_def set_session_def new_URL_def)
  have l: "login_failed request' = login_failed request"
    using assms(1) by (simp add: login_failed_def new_URL_def)
  show ?thesis
  proof (cases "searchParams_get request ''code''")
    case None
    with c l show ?thesis by (simp add: GET_def)
  next
    case (Some code)
    with c l t [of code] show ?thesis by (simp add: GET_def)
  qed
qed

theorem state_parameter_ignored_witness:
  "GET sample_env (sample_fetch token_granted private_profile two_emails session_issued)
     (sample_request [(''code'', ''c0de''), (''state'', ''x1'')])
   = GET sample_env (sample_fetch token_granted private_profile two_emails session_issued)
     (sample_request [(''code'', ''c0de'')])
   \<and> GET sample_env (sample_fetch token_granted private_profile two_emails session_issued)
     (sample_request [(''state'', ''forged''), (''code'', ''c0de''), (''state'', ''x1'')])
   = GET sample_env (sample_fetch token_granted private_profile two_emails session_issued)
     (sample_request [(''code'', ''c0de'')])
   \<and> response (GET sample_env
       (sample_fetch token_granted private_profile two_emails session_issued)
       (sample_request [(''code'', ''c0de'')]))
     = \<lparr>status = 307, location = Some (Href ''https://b2b.test/moderator''),
        response_json = None,
        cookies = [\<lparr>cookie_name = ''auth_token'', cookie_value = Some (JStr ''T''),
                    httpOnly = True, secure = True, sameSite = ''lax'',
                    cookie_path = ''/'', maxAge = 604800\<rparr>]\<rparr>"
proof -
  let ?f = "sample_fetch token_granted private_profile two_emails session_issued"
  have "GET sample_env ?f (sample_request [(''code'', ''c0de''), (''state'', ''x1'')])
      = GET sample_env ?f (sample_request [(''code'', ''c0de'')])"
    by (rule state_parameter_ignored) (simp_all add: sample_request_def)
  moreover
  have "GET sample_env ?f
          (sample_request [(''state'', ''forged''), (''code'', ''c0de''), (''state'', ''x1'')])
      = GET sample_env ?f (sample_request [(''code'', ''c0de'')])"
    by (rule state_parameter_ignored) (simp_all add: sample_request_def)
  moreover
  have "response (GET sample_env ?f (sample_request [(''code'', ''c0de'')]))
     = \<lparr>status = 307, location = Some (Href ''https://b2b.test/moderator''),
        response_json = None,
        cookies = [\<lparr>cookie_name = ''auth_token'', cookie_value = Some (JStr ''T''),
                    httpOnly = True, secure = True, sameSite = ''lax'',
                    cookie_path = ''/'', maxAge = 604800\<rparr>]\<rparr>"
    by (simp add: handler_defs sample_defs)
  ultimately show ?thesis by blast
qed

text \<open>
  C7. Once an email is resolved, the one further call is a POST to
  \<^verbatim>\<open>{backend}/api/auth/github-oauth\<close>, where the backend is \<^verbatim>\<open>NEXT_PUBLIC_API_URL\<close>
  when that is set and not empty, and \<^verbatim>\<open>http://localhost:8000\<close> otherwise. Its body
  is \<^verbatim>\<open>JSON.stringify\<close> of the object with the properties \<^verbatim>\<open>access_token\<close>,
  \<^verbatim>\<open>email\<close>, \<^verbatim>\<open>github_id\<close>, \<^verbatim>\<open>username\<close>: the provider access token, the resolved
  email, the profile's \<^verbatim>\<open>id\<close> and its \<^verbatim>\<open>login\<close>. For a profile that has an \<^verbatim>\<open>id\<close> and
  a \<^verbatim>\<open>login\<close> the body holds exactly these four fields, each value as
  \<^verbatim>\<open>JSON.stringify\<close> writes it; for a string token, email and login and a finite
  id these are the values themselves. When the backend answers with a
  non-success status, or the call is rejected, the handler redirects to the
  error target.
\<close>

theorem backend_handoff:
  assumes code: "searchParams_get request ''code'' = Some code" "code \<noteq> []"
    and token: "fetch (token_request e request code) = Inr tokenResponse" "ok tokenResponse"
      "json_body tokenResponse = Some tokenData"
      "get_prop tokenData ''access_token'' = Inr access_token" "truthy access_token"
    and profile: "fetch (user_request access_token) = Inr userResponse" "ok userResponse"
      "json_body userResponse = Some userData"
    and email: "resolve_email fetch access_token userData = (l, Inr email)" "truthy email"
    and ident: "get_prop userData ''id'' = Inr github_id"
      "get_prop userData ''login'' = Inr username"
  shows "calls (GET e fetch request) =
           [token_request e request code, user_request access_token] @ l @
           [\<lparr>url = (case NEXT_PUBLIC_API_URL e of
                      None \<Rightarrow> ''http://localhost:8000''
                    | Some backend \<Rightarrow>
                        if backend = [] then ''http://localhost:8000'' else backend)
                   @ ''/api/auth/github-oauth'',
             http_method = ''POST'',
             headers = [(''Content-Type'', Lit ''application/json'')],
             body = JsonBody (JSON_stringify
               [(''access_token'', access_token), (''email'', email),
                (''github_id'', github_id), (''username'', username)])\<rparr>]
       \<and> (\<forall>backend. NEXT_PUBLIC_API_URL e = Some backend \<and> backend \<noteq> [] \<longrightarrow>
            url (last (calls (GET e fetch request))) = backend @ ''/api/auth/github-oauth'')
       \<and> (\<forall>i n. github_id = Some i \<and> username = Some n \<longrightarrow>
            (\<exists>t m. access_token = Some t \<and> email = Some m \<and>
               JSON_stringify
                 [(''access_token'', access_token), (''email'', email),
                  (''github_id'', github_id), (''username'', username)]
               = [(''access_token'', stringify_value t), (''email'', stringify_value m),
                  (''github_id'', stringify_value i), (''username'', stringify_value n)]))
       \<and> (\<forall>t m i n. access_token = Some (JStr t) \<and> email = Some (JStr m)
              \<and> github_id = Some (JNum (Finite i)) \<and> username = Some (JStr n) \<longrightarrow>
            JSON_stringify
              [(''access_token'', access_token), (''email'', email),
               (''github_id'', github_id), (''username'', username)]
            = [(''access_token'', JStr t), (''email'', JStr m),
               (''github_id'', JNum (Finite i)), (''username'', JStr n)])
       \<and> (\<forall>authResponse.
            fetch (backend_request e access_token email github_id username) = Inr authResponse
            \<and> \<not> ok authResponse \<longrightarrow>
            response (GET e fetch request) = login_failed request
            \<and> logged (GET e fetch request) = [Error ''Backend authentication failed''])
       \<and> (\<forall>x.
            fetch (backend_request e access_token email github_id username) = Inl x \<longrightarrow>
            response (GET e fetch request) = login_failed request
            \<and> logged (GET e fetch request) = [x])"
proof (intro conjI allI impI)
  obtain l4 res where b: "backend_auth e fetch access_token email userData = (l4, res)"
    by (cases "backend_auth e fetch access_token email userData")
  with backend_auth_calls [OF ident, where e = e and fetch = fetch and t = access_token and m = email]
  have l4: "l4 = [backend_request e access_token email github_id username]" by simp
  have "fst (GET_try e fetch request code) =
          [token_request e request code, user_request access_token] @ l @
          [backend_request e access_token email github_id username]"
    using GET_try_after_email [OF token profile email] b l4 by (cases res) simp_all
  moreover have "calls (GET e fetch request) = fst (GET_try e fetch request code)"
    using code by (cases "GET_try e fetch request code")
      (auto simp: GET_with_code split: sum.splits)
  ultimately have c: "calls (GET e fetch request) =
          [token_request e request code, user_request access_token] @ l @
          [backend_request e access_token email github_id username]"
    by simp
  then show "calls (GET e fetch request) =
           [token_request e request code, user_request access_token] @ l @
           [\<lparr>url = (case NEXT_PUBLIC_API_URL e of
                      None \<Rightarrow> ''http://localhost:8000''
                    | Some backend \<Rightarrow>
                        if backend = [] then ''http://localhost:8000'' else backend)
                   @ ''/api/auth/github-oauth'',
             http_method = ''POST'',
             headers = [(''Content-Type'', Lit ''application/json'')],
             body = JsonBody (JSON_stringify
               [(''access_token'', access_token), (''email'', email),
                (''github_id'', github_id), (''username'', username)])\<rparr>]"
    by (simp add: backend_request_def backendUrl_def)
  fix backend
  assume "NEXT_PUBLIC_API_URL e = Some backend \<and> backend \<noteq> []"
  with c show "url (last (calls (GET e fetch request))) = backend @ ''/api/auth/github-oauth''"
    by (simp add: backend_request_def backendUrl_def)
next
  fix i n
  assume "github_id = Some i \<and> username = Some n"
  moreover obtain t where "access_token = Some t"
    using truthy_defined [OF token(5)] by blast
  moreover obtain m where "email = Some m"
    using truthy_defined [OF email(2)] by blast
  ultimately show "\<exists>t m. access_token = Some t \<and> email = Some m \<and>
               JSON_stringify
                 [(''access_token'', access_token), (''email'', email),
                  (''github_id'', github_id), (''username'', username)]
               = [(''access_token'', stringify_value t), (''email'', stringify_value m),
                  (''github_id'', stringify_value i), (''username'', stringify_value n)]"
    by simp
next
  fix t m i n
  assume "access_token = Some (JStr t) \<and> email = Some (JStr m)
              \<and> github_id = Some (JNum (Finite i)) \<and> username = Some (JStr n)"
  then show "JSON_stringify
              [(''access_token'', access_token), (''email'', email),
               (''github_id'', github_id), (''username'', username)]
            = [(''access_token'', JStr t), (''email'', JStr m),
               (''github_id'', JNum (Finite i)), (''username'', JStr n)]"
    by simp
next
  fix authResponse
  assume a: "fetch (backend_request e access_token email github_id username) = Inr authResponse
            \<and> \<not> ok authResponse"
  then have "backend_auth e fetch access_token email userData =
      ([backend_request e access_token email github_id username],
       Inl (Error ''Backend authentication failed''))"
    using backend_auth_answered [OF ident, where e = e and fetch = fetch and t = access_token and m = email and r = authResponse] by simp
  with GET_try_after_email [OF token profile email]
  have "snd (GET_try e fetch request code) = Inl (Error ''Backend authentication failed'')"
    by simp
  then show "response (GET e fetch request) = login_failed request"
    and "logged (GET e fetch request) = [Error ''Backend authentication failed'']"
    using code by (cases "GET_try e fetch request code"; simp add: GET_with_code)+
next
  fix x
  assume "fetch (backend_request e access_token email github_id username) = Inl x"
  then have "backend_auth e fetch access_token email userData =
      ([backend_request e access_token email github_id username], Inl x)"
    using backend_auth_rejected [OF ident, where e = e and fetch = fetch and t = access_token and m = email and x = x] by simp
  with GET_try_after_email [OF token profile email]
  have "snd (GET_try e fetch request code) = Inl x"
    by simp
  then show "response (GET e fetch request) = login_failed request"
    and "logged (GET e fetch request) = [x]"
    using code by (cases "GET_try e fetch request code"; simp add: GET_with_code)+
qed

theorem backend_handoff_witness:
  "calls (GET (sample_env\<lparr>NEXT_PUBLIC_API_URL := Some ''https://api.b2b.test''\<rparr>)
      (sample_fetch token_granted public_profile two_emails session_issued)
      (sample_request [(''code'', ''c0de'')]))
     = [token_request sample_env (sample_request [(''code'', ''c0de'')]) ''c0de'',
        user_request (Some (JStr ''gho_16C7'')),
        \<lparr>url = ''https://api.b2b.test/api/auth/github-oauth'',
          http_method = ''POST'',
          headers = [(''Content-Type'', Lit ''application/json'')],
          body = JsonBody
            [(''access_token'', JStr ''gho_16C7''), (''email'', JStr ''octocat@github.test''),
             (''github_id'', JNum (Finite 583231)), (''username'', JStr ''octocat'')]\<rparr>]
   \<and> calls (GET sample_env
      (sample_fetch token_granted huge_id_profile two_emails session_issued)
      (sample_request [(''code'', ''c0de'')]))
     = [token_request sample_env (sample_request [(''code'', ''c0de'')]) ''c0de'',
        user_request (Some (JStr ''gho_16C7'')),
        \<lparr>url = ''http://localhost:8000/api/auth/github-oauth'',
          http_method = ''POST'',
          headers = [(''Content-Type'', Lit ''application/json'')],
          body = JsonBody
            [(''access_token'', JStr ''gho_16C7''), (''email'', JStr ''octocat@github.test''),
             (''github_id'', JNull), (''username'', JStr ''octocat'')]\<rparr>]
   \<and> response (GET sample_env (sample_fetch token_granted public_profile two_emails rejected)
        (sample_request [(''code'', ''c0de'')]))
     = login_failed (sample_request [(''code'', ''c0de'')])
   \<and> logged (GET sample_env (sample_fetch token_granted public_profile two_emails rejected)
        (sample_request [(''code'', ''c0de'')]))
     = [Error ''Backend authentication failed'']"
proof -
  let ?r = "sample_request [(''code'', ''c0de'')]"
  let ?e = "sample_env\<lparr>NEXT_PUBLIC_API_URL := Some ''https://api.b2b.test''\<rparr>"
  let ?t = "Some (JStr ''gho_16C7'')"
  let ?m = "Some (JStr ''octocat@github.test'')"
  let ?i = "Some (JNum (Finite 583231))"
  let ?n = "Some (JStr ''octocat'')"
  let ?u = "JObj [(''id'', JNum (Finite 583231)), (''login'', JStr ''octocat''),
                  (''email'', JStr ''octocat@github.test'')]"
  let ?h = "JObj [(''id'', JNum (Infinity False)), (''login'', JStr ''octocat''),
                  (''email'', JStr ''octocat@github.test'')]"
  let ?f = "sample_fetch token_granted public_profile two_emails session_issued"
  let ?k = "sample_fetch token_granted huge_id_profile two_emails session_issued"
  let ?g = "sample_fetch token_granted public_profile two_emails rejected"
  let ?tr = "\<lparr>ok = True, json_body = Some (JObj [(''access_token'', JStr ''gho_16C7'')])\<rparr>"
  let ?td = "JObj [(''access_token'', JStr ''gho_16C7'')]"
  have "calls (GET ?e ?f ?r) =
           [token_request ?e ?r ''c0de'', user_request ?t] @ [] @
           [\<lparr>url = (case NEXT_PUBLIC_API_URL ?e of
                      None \<Rightarrow> ''http://localhost:8000''
                    | Some backend \<Rightarrow>
                        if backend = [] then ''http://localhost:8000'' else backend)
                   @ ''/api/auth/github-oauth'',
             http_method = ''POST'',
             headers = [(''Content-Type'', Lit ''application/json'')],
             body = JsonBody (JSON_stringify
               [(''access_token'', ?t), (''email'', ?m),
                (''github_id'', ?i), (''username'', ?n)])\<rparr>]"
    by (rule conjunct1 [OF backend_handoff
          [of ?r "''c0de''" ?f ?e ?tr ?td ?t "\<lparr>ok = True, json_body = Some ?u\<rparr>" ?u
             "[]" ?m ?i ?n]])
       (simp_all add: handler_defs sample_defs)
  then have 1: "calls (GET ?e ?f ?r) =
       [token_request sample_env ?r ''c0de'', user_request ?t,
        \<lparr>url = ''https://api.b2b.test/api/auth/github-oauth'',
          http_method = ''POST'',
          headers = [(''Content-Type'', Lit ''application/json'')],
          body = JsonBody
            [(''access_token'', JStr ''gho_16C7''), (''email'', JStr ''octocat@github.test''),
             (''github_id'', JNum (Finite 583231)), (''username'', JStr ''octocat'')]\<rparr>]"
    by (simp add: sample_env_def token_request_def)
  have "calls (GET sample_env ?k ?r) =
           [token_request sample_env ?r ''c0de'', user_request ?t] @ [] @
           [\<lparr>url = (case NEXT_PUBLIC_API_URL sample_env of
                      None \<Rightarrow> ''http://localhost:8000''
                    | Some backend \<Rightarrow>
                        if backend = [] then ''http://localhost:8000'' else backend)
                   @ ''/api/auth/github-oauth'',
             http_method = ''POST'',
             headers = [(''Content-Type'', Lit ''application/json'')],
             body = JsonBody (JSON_stringify
               [(''access_token'', ?t), (''email'', ?m),
                (''github_id'', Some (JNum (Infinity False))), (''username'', ?n)])\<rparr>]"
    by (rule conjunct1 [OF backend_handoff
          [of ?r "''c0de''" ?k sample_env ?tr ?td ?t "\<lparr>ok = True, json_body = Some ?h\<rparr>" ?h
             "[]" ?m "Some (JNum (Infinity False))" ?n]])
       (simp_all add: handler_defs sample_defs)
  then have 2: "calls (GET sample_env ?k ?r) =
       [token_request sample_env ?r ''c0de'', user_request ?t,
        \<lparr>url = ''http://localhost:8000/api/auth/github-oauth'',
          http_method = ''POST'',
          headers = [(''Content-Type'', Lit ''application/json'')],
          body = JsonBody
            [(''access_token'', JStr ''gho_16C7''), (''email'', JStr ''octocat@github.test''),
             (''github_id'', JNull), (''username'', JStr ''octocat'')]\<rparr>]"
    by (simp add: sample_env_def)
  have 3: "response (GET sample_env ?g ?r) = login_failed ?r
       \<and> logged (GET sample_env ?g ?r) = [Error ''Backend authentication failed'']"
    by (rule mp [OF spec [of _ "\<lparr>ok = False,
            json_body = Some (JObj [(''message'', JStr ''Bad credentials'')])\<rparr>",
          OF conjunct1 [OF conjunct2 [OF conjunct2 [OF conjunct2 [OF conjunct2 [OF backend_handoff
          [of ?r "''c0de''" ?g sample_env ?tr ?td ?t "\<lparr>ok = True, json_body = Some ?u\<rparr>" ?u
             "[]" ?m ?i ?n]]]]]]]])
       (simp_all add: handler_defs sample_defs)
  from 1 2 3 show ?thesis by blast
qed

section \<open>Properties of the authorize handler\<close>

text \<open>
  C8. Without a client identifier (\<^verbatim>\<open>GITHUB_CLIENT_ID\<close> unset or empty) the
  authorize handler answers 500 with a JSON body that has an \<^verbatim>\<open>error\<close> field, and
  no \<^verbatim>\<open>Location\<close>; with one, it redirects to the provider's authorization URL
  carrying \<^verbatim>\<open>client_id\<close>, \<^verbatim>\<open>redirect_uri\<close>, \<^verbatim>\<open>scope\<close> and \<^verbatim>\<open>state\<close>.
\<close>

theorem authorize_needs_client_id:
  "(GITHUB_CLIENT_ID e = None \<or> GITHUB_CLIENT_ID e = Some [] \<longrightarrow>
      status (GET_authorize e rnd request) = 500
    \<and> response_json (GET_authorize e rnd request)
        = Some [(''error'', JStr ''GITHUB_CLIENT_ID is not configured'')]
    \<and> (\<exists>fields message. response_json (GET_authorize e rnd request) = Some fields
          \<and> map_of fields ''error'' = Some message)
    \<and> location (GET_authorize e rnd request) = None
    \<and> cookies (GET_authorize e rnd request) = [])
   \<and> (\<forall>clientId. GITHUB_CLIENT_ID e = Some clientId \<and> clientId \<noteq> [] \<longrightarrow>
      status (GET_authorize e rnd request) = 307
    \<and> location (GET_authorize e rnd request)
        = Some (WithParams ''https://github.com/login/oauth/authorize''
            [(''client_id'', clientId),
             (''redirect_uri'', authorize_origin request @ ''/api/github/callback''),
             (''scope'', ''user:email''),
             (''state'', rnd)])
    \<and> response_json (GET_authorize e rnd request) = None)"
  by (auto simp: GET_authorize_def NextResponse_json_def NextResponse_redirect_def)

theorem authorize_needs_client_id_witness:
  "status (GET_authorize (sample_env\<lparr>GITHUB_CLIENT_ID := None\<rparr>) ''k3x9q''
      (sample_request [])) = 500
   \<and> response_json (GET_authorize (sample_env\<lparr>GITHUB_CLIENT_ID := None\<rparr>) ''k3x9q''
      (sample_request []))
       = Some [(''error'', JStr ''GITHUB_CLIENT_ID is not configured'')]
   \<and> location (GET_authorize (sample_env\<lparr>GITHUB_CLIENT_ID := None\<rparr>) ''k3x9q''
      (sample_request [])) = None
   \<and> status (GET_authorize sample_env ''k3x9q''
      ((sample_request [])\<lparr>req_headers := [(''origin'', ''https://b2b.test'')]\<rparr>)) = 307
   \<and> location (GET_authorize sample_env ''k3x9q''
      ((sample_request [])\<lparr>req_headers := [(''origin'', ''https://b2b.test'')]\<rparr>))
       = Some (WithParams ''https://github.com/login/oauth/authorize''
            [(''client_id'', ''Iv1.abc''),
             (''redirect_uri'', ''https://b2b.test/api/github/callback''),
             (''scope'', ''user:email''),
             (''state'', ''k3x9q'')])"
proof -
  let ?e = "sample_env\<lparr>GITHUB_CLIENT_ID := None\<rparr>"
  let ?r = "(sample_request [])\<lparr>req_headers := [(''origin'', ''https://b2b.test'')]\<rparr>"
  have "status (GET_authorize ?e ''k3x9q'' (sample_request [])) = 500
    \<and> response_json (GET_authorize ?e ''k3x9q'' (sample_request []))
        = Some [(''error'', JStr ''GITHUB_CLIENT_ID is not configured'')]
    \<and> (\<exists>fields message.
          response_json (GET_authorize ?e ''k3x9q'' (sample_request [])) = Some fields
          \<and> map_of fields ''error'' = Some message)
    \<and> location (GET_authorize ?e ''k3x9q'' (sample_request [])) = None
    \<and> cookies (GET_authorize ?e ''k3x9q'' (sample_request [])) = []"
    by (rule mp [OF conjunct1 [OF authorize_needs_client_id]]) (simp add: sample_env_def)
  moreover
  have "status (GET_authorize sample_env ''k3x9q'' ?r) = 307
    \<and> location (GET_authorize sample_env ''k3x9q'' ?r)
        = Some (WithParams ''https://github.com/login/oauth/authorize''
            [(''client_id'', ''Iv1.abc''),
             (''redirect_uri'', authorize_origin ?r @ ''/api/github/callback''),
             (''scope'', ''user:email''),
             (''state'', ''k3x9q'')])
    \<and> response_json (GET_authorize sample_env ''k3x9q'' ?r) = None"
    by (rule mp [OF spec [of _ "''Iv1.abc''", OF conjunct2 [OF authorize_needs_client_id]]])
       (simp add: sample_env_def)
  moreover have "authorize_origin ?r = ''https://b2b.test''"
    by (simp add: authorize_origin_def headers_get_def sample_request_def)
  ultimately show ?thesis by simp
qed

end
